theory Spec2Isabelle
  imports Main "HOL-Library.Sublist"
begin

section \<open>The drug supply-chain chaincode (chaincode/drugChaincode.go)\<close>

subsection \<open>Data model\<close>

text \<open>
  The Go struct \<^verbatim>\<open>Drug\<close>, field by field. Go strings are byte sequences, as
  \<open>string\<close> is here; a Go slice of strings is a list (a nil slice and an empty
  one are both \<open>[]\<close>). \<open>Status\<close> is a plain string in the source, not an enum.
\<close>

record Drug =
  DrugID :: string
  Name :: string
  Manufacturer :: string
  BatchNumber :: string
  MfgDate :: string
  ExpiryDate :: string
  Composition :: string
  CurrentOwner :: string
  Status :: string
  History :: "string list"
  IsRecalled :: bool
  InspectionNotes :: "string list"

text \<open>The value of \<^verbatim>\<open>var drug Drug\<close>: every field at its zero value.\<close>

definition zeroDrug :: Drug where
  "zeroDrug = \<lparr>DrugID = [], Name = [], Manufacturer = [], BatchNumber = [],
     MfgDate = [], ExpiryDate = [], Composition = [], CurrentOwner = [], Status = [],
     History = [], IsRecalled = False, InspectionNotes = []\<rparr>"

text \<open>
  What the operations return. The source returns \<^verbatim>\<open>fmt.Errorf\<close> messages or passes on
  the error of a library call; a run-time panic is a value here as well.
  \<^item> \<open>Unauthorized\<close>: "only Cipla (Manufacturer) can register drugs",
    "only the current owner can ship this drug", "only CDSCO (Regulator) can recall drugs";
  \<^item> \<open>AlreadyExists id\<close>: "drug with ID id already exists";
  \<^item> \<open>NotFound id\<close>: "drug id not found";
  \<^item> \<open>IdentityUnavailable\<close>: the error of \<^verbatim>\<open>GetMSPID\<close>;
  \<^item> \<open>StoreUnavailable\<close>: the error of \<^verbatim>\<open>GetState\<close> or \<^verbatim>\<open>PutState\<close>;
  \<^item> \<open>DecodeError\<close>: the error of \<^verbatim>\<open>json.Unmarshal\<close>;
  \<^item> \<open>Panic\<close>: slice bounds out of range.
\<close>

datatype error =
    Unauthorized
  | AlreadyExists string
  | NotFound string
  | IdentityUnavailable
  | StoreUnavailable
  | DecodeError
  | Panic

subsection \<open>Strings as the JSON codec stores them\<close>

text \<open>
  The byte encoding of a record is Go's \<^verbatim>\<open>encoding/json\<close>, a library outside
  the repository. It does not keep every string: writing a string, \<^verbatim>\<open>json.Marshal\<close>
  replaces each byte that is not part of a well-formed UTF-8 sequence by U+FFFD
  (the bytes EF BF BD), and \<^verbatim>\<open>json.Unmarshal\<close> reads a string literal the same
  way. Chaincode arguments are raw bytes, so such strings reach the code.

  \<open>leadByte\<close> is the table of \<^verbatim>\<open>unicode/utf8\<close>: for a first byte, the length of
  the sequence it starts (1 for ASCII, 0 for a byte that starts none) and the
  range accepted for the second byte. \<open>runeSize s\<close> is the length of the
  well-formed sequence at the head of \<open>s\<close>, or 0 where
  \<^verbatim>\<open>utf8.DecodeRuneInString\<close> returns \<^verbatim>\<open>(RuneError, 1)\<close>. \<open>toValidUTF8\<close> is
  the string the codec keeps.
\<close>

definition leadByte :: "char \<Rightarrow> nat \<times> nat \<times> nat" where
  "leadByte a =
     (let x = (of_char a :: nat) in
      if x < 0x80 then (1, 0, 0)
      else if 0xC2 \<le> x \<and> x \<le> 0xDF then (2, 0x80, 0xBF)
      else if x = 0xE0 then (3, 0xA0, 0xBF)
      else if x = 0xED then (3, 0x80, 0x9F)
      else if 0xE1 \<le> x \<and> x \<le> 0xEF then (3, 0x80, 0xBF)
      else if x = 0xF0 then (4, 0x90, 0xBF)
      else if 0xF1 \<le> x \<and> x \<le> 0xF3 then (4, 0x80, 0xBF)
      else if x = 0xF4 then (4, 0x80, 0x8F)
      else (0, 0, 0))"

definition inRange :: "nat \<Rightarrow> nat \<Rightarrow> char \<Rightarrow> bool" where
  "inRange lo hi b = (lo \<le> of_char b \<and> of_char b \<le> hi)"

fun runeSize :: "string \<Rightarrow> nat" where
  "runeSize [] = 0"
| "runeSize (a # s) =
     (case leadByte a of (sz, lo, hi) \<Rightarrow>
        if sz \<le> 1 then sz
        else if length s < sz - 1 then 0
        else if \<not> inRange lo hi (hd s) then 0
        else if list_all (inRange 0x80 0xBF) (take (sz - 2) (tl s)) then sz
        else 0)"

definition replacementChar :: string where
  "replacementChar = [CHR 0xEF, CHR 0xBF, CHR 0xBD]"

function toValidUTF8 :: "string \<Rightarrow> string" where
  "toValidUTF8 [] = []"
| "toValidUTF8 (a # s) =
     (if runeSize (a # s) = 0 then replacementChar @ toValidUTF8 s
      else take (runeSize (a # s)) (a # s) @ toValidUTF8 (drop (runeSize (a # s)) (a # s)))"
  by pat_completeness auto
termination
  by (relation "measure length") auto

text \<open>A record as the codec keeps it: every string, and every string of a slice.\<close>

definition toValidUTF8Drug :: "Drug \<Rightarrow> Drug" where
  "toValidUTF8Drug d =
     \<lparr>DrugID = toValidUTF8 (DrugID d), Name = toValidUTF8 (Name d),
      Manufacturer = toValidUTF8 (Manufacturer d), BatchNumber = toValidUTF8 (BatchNumber d),
      MfgDate = toValidUTF8 (MfgDate d), ExpiryDate = toValidUTF8 (ExpiryDate d),
      Composition = toValidUTF8 (Composition d), CurrentOwner = toValidUTF8 (CurrentOwner d),
      Status = toValidUTF8 (Status d), History = map toValidUTF8 (History d),
      IsRecalled = IsRecalled d, InspectionNotes = map toValidUTF8 (InspectionNotes d)\<rparr>"

text \<open>
  Stored bytes are kept up to what decoding makes of them. \<open>Marshalled d\<close> is a
  JSON document of a \<^verbatim>\<open>Drug\<close> whose string literals spell the strings of \<open>d\<close>;
  \<^verbatim>\<open>json.Unmarshal\<close> decodes it without error. \<open>Undecodable d\<close> is a byte string
  on which \<^verbatim>\<open>json.Unmarshal\<close> returns an error, \<open>d\<close> being what it has left in
  the zero-valued target by then (\<open>zeroDrug\<close> for bytes that are not JSON at all).
  \<^verbatim>\<open>json.Marshal\<close> returns no error on a \<^verbatim>\<open>Drug\<close>; the source drops its error
  result.
\<close>

datatype bytes = Marshalled Drug | Undecodable Drug

definition json_Marshal :: "Drug \<Rightarrow> bytes \<times> error option" where
  "json_Marshal drug = (Marshalled (toValidUTF8Drug drug), None)"

fun json_Unmarshal :: "bytes \<Rightarrow> Drug \<times> error option" where
  "json_Unmarshal (Marshalled d) = (toValidUTF8Drug d, None)"
| "json_Unmarshal (Undecodable d) = (d, Some DecodeError)"

subsection \<open>The transaction context\<close>

text \<open>
  \<^verbatim>\<open>contractapi.TransactionContextInterface\<close> as the source uses it: the client
  identity (\<open>None\<close> when \<^verbatim>\<open>GetMSPID\<close> fails; the string it returns with the
  error is then empty), the world state behind \<^verbatim>\<open>GetState\<close> and
  \<^verbatim>\<open>PutState\<close>, whether those two calls fail in this transaction, the
  chaincode event set by \<^verbatim>\<open>SetEvent\<close> (the source ignores its result), and the
  system clock: \<open>clock c k\<close> is the formatted reading of \<^verbatim>\<open>time.Now()\<close> at the
  \<open>k\<close>-th call of \<^verbatim>\<open>getTimestamp\<close> in the transaction. A key with nothing
  stored reads as nil (\<open>None\<close>).
\<close>

record ctx =
  clientMSPID :: "string option"
  worldState :: "string \<rightharpoonup> bytes"
  getStateFails :: bool
  putStateFails :: bool
  event :: "(string \<times> string) option"
  clock :: "nat \<Rightarrow> string"

definition getMSPID :: "ctx \<Rightarrow> string \<times> error option" where
  "getMSPID c = (case clientMSPID c of
       Some m \<Rightarrow> (m, None)
     | None \<Rightarrow> ([], Some IdentityUnavailable))"

definition getTimestamp :: "ctx \<Rightarrow> nat \<Rightarrow> string" where
  "getTimestamp c k = clock c k"

definition GetState :: "ctx \<Rightarrow> string \<Rightarrow> bytes option \<times> error option" where
  "GetState c key =
     (if getStateFails c then (None, Some StoreUnavailable) else (worldState c key, None))"

definition PutState :: "ctx \<Rightarrow> string \<Rightarrow> bytes \<Rightarrow> error option \<times> ctx" where
  "PutState c key v =
     (if putStateFails c then (Some StoreUnavailable, c)
      else (None, c\<lparr>worldState := (worldState c)(key \<mapsto> v)\<rparr>))"

definition SetEvent :: "ctx \<Rightarrow> string \<Rightarrow> string \<Rightarrow> ctx" where
  "SetEvent c name payload = c\<lparr>event := Some (name, payload)\<rparr>"

subsection \<open>The operations\<close>

text \<open>
  Each operation returns the Go function's error (\<open>None\<close> for nil) and the context
  as the call leaves it.
\<close>

definition RegisterDrug ::
  "ctx \<Rightarrow> string \<Rightarrow> string \<Rightarrow> string \<Rightarrow> string \<Rightarrow> string \<Rightarrow> string \<Rightarrow> error option \<times> ctx" where
  "RegisterDrug c drugID name batchNumber mfgDate expiryDate composition =
     (case getMSPID c of (mspID, err) \<Rightarrow>
        if err \<noteq> None \<or> mspID \<noteq> ''CiplaMSP'' then (Some Unauthorized, c)
        else (case GetState c drugID of (existing, err) \<Rightarrow>
          if err \<noteq> None then (err, c)
          else if existing \<noteq> None then (Some (AlreadyExists drugID), c)
          else
            let drug = \<lparr>DrugID = drugID, Name = name, Manufacturer = ''Cipla'',
                  BatchNumber = batchNumber, MfgDate = mfgDate, ExpiryDate = expiryDate,
                  Composition = composition, CurrentOwner = ''Cipla'',
                  Status = ''InProduction'',
                  History = [getTimestamp c 0 @ ''|Created|Cipla|-|Batch: '' @ batchNumber],
                  IsRecalled = False, InspectionNotes = []\<rparr>
            in PutState c drugID (fst (json_Marshal drug))))"

definition ShipDrug :: "ctx \<Rightarrow> string \<Rightarrow> string \<Rightarrow> error option \<times> ctx" where
  "ShipDrug c drugID to =
     (case GetState c drugID of (drugBytes, err) \<Rightarrow>
        if err \<noteq> None then (Some (NotFound drugID), c)
        else (case drugBytes of
            None \<Rightarrow> (Some (NotFound drugID), c)
          | Some b \<Rightarrow>
            (case json_Unmarshal b of (drug, err) \<Rightarrow>
               if err \<noteq> None then (err, c)
               else
                 let mspID = fst (getMSPID c) in
                 if length mspID < 3 then (Some Panic, c)
                 else if CurrentOwner drug \<noteq> take (length mspID - 3) mspID
                 then (Some Unauthorized, c)
                 else
                   let from = CurrentOwner drug;
                       drug = drug\<lparr>CurrentOwner := to\<rparr>;
                       drug = drug\<lparr>Status := ''InTransit''\<rparr>;
                       drug = drug\<lparr>History := History drug @
                                [getTimestamp c 0 @ ''|Shipped|'' @ from @ ''|'' @ to @ ''|'']\<rparr>;
                       c = SetEvent c ''DrugShipped'' drugID
                   in PutState c drugID (fst (json_Marshal drug)))))"

definition RecallDrug :: "ctx \<Rightarrow> string \<Rightarrow> string \<Rightarrow> error option \<times> ctx" where
  "RecallDrug c drugID reason =
     (case getMSPID c of (mspID, err) \<Rightarrow>
        if err \<noteq> None \<or> mspID \<noteq> ''CDSCOMSP'' then (Some Unauthorized, c)
        else (case GetState c drugID of (drugBytes, err) \<Rightarrow>
          if err \<noteq> None then (Some (NotFound drugID), c)
          else (case drugBytes of
              None \<Rightarrow> (Some (NotFound drugID), c)
            | Some b \<Rightarrow>
              let drug = fst (json_Unmarshal b);
                  drug = drug\<lparr>IsRecalled := True\<rparr>;
                  drug = drug\<lparr>Status := ''Recalled''\<rparr>;
                  drug = drug\<lparr>InspectionNotes := InspectionNotes drug @
                           [getTimestamp c 0 @ '': '' @ reason]\<rparr>;
                  drug = drug\<lparr>History := History drug @
                           [getTimestamp c 1 @ ''|Recalled|CDSCO|-|Reason: '' @ reason]\<rparr>;
                  c = SetEvent c ''DrugRecalled'' drugID
              in PutState c drugID (fst (json_Marshal drug)))))"

definition TrackDrug :: "ctx \<Rightarrow> string \<Rightarrow> error + bytes" where
  "TrackDrug c drugID =
     (case GetState c drugID of (data, err) \<Rightarrow>
        if err \<noteq> None then Inl (NotFound drugID)
        else (case data of None \<Rightarrow> Inl (NotFound drugID) | Some b \<Rightarrow> Inr b))"

subsection \<open>Sequences of transactions\<close>

text \<open>
  A call names one of the four entry points with its arguments. A request is a call
  with the context it runs in; the world state of that context is the committed
  one, and its event starts unset. \<open>invoke\<close> runs one request, \<open>commit\<close> gives the
  world state after it, \<open>run\<close> commits a list of requests in order.
\<close>

datatype call =
    Register string string string string string string
  | Ship string string
  | Recall string string
  | Track string

fun dispatch :: "call \<Rightarrow> ctx \<Rightarrow> error option \<times> ctx" where
  "dispatch (Register drugID name batchNumber mfgDate expiryDate composition) c =
     RegisterDrug c drugID name batchNumber mfgDate expiryDate composition"
| "dispatch (Ship drugID to) c = ShipDrug c drugID to"
| "dispatch (Recall drugID reason) c = RecallDrug c drugID reason"
| "dispatch (Track drugID) c =
     (case TrackDrug c drugID of Inl e \<Rightarrow> (Some e, c) | Inr _ \<Rightarrow> (None, c))"

definition invoke :: "ctx \<times> call \<Rightarrow> (string \<rightharpoonup> bytes) \<Rightarrow> error option \<times> ctx" where
  "invoke r s = dispatch (snd r) ((fst r)\<lparr>worldState := s, event := None\<rparr>)"

definition commit :: "ctx \<times> call \<Rightarrow> (string \<rightharpoonup> bytes) \<Rightarrow> (string \<rightharpoonup> bytes)" where
  "commit r s = worldState (snd (invoke r s))"

fun run :: "(ctx \<times> call) list \<Rightarrow> (string \<rightharpoonup> bytes) \<Rightarrow> (string \<rightharpoonup> bytes)" where
  "run [] s = s"
| "run (r # rs) s = run rs (commit r s)"

text \<open>
  \<open>readDrug s k\<close> is the record a reader decodes from the world state \<open>s\<close> at
  the key \<open>k\<close>: \<open>None\<close> where nothing is stored or the bytes do not decode.
\<close>

definition readDrug :: "(string \<rightharpoonup> bytes) \<Rightarrow> string \<Rightarrow> Drug option" where
  "readDrug s k =
     (case s k of
        None \<Rightarrow> None
      | Some b \<Rightarrow> (case json_Unmarshal b of (d, err) \<Rightarrow> if err \<noteq> None then None else Some d))"

subsection \<open>A concrete scenario\<close>

text \<open>
  The batch \<open>DRUG-1\<close> as \<^verbatim>\<open>RegisterDrug\<close> creates it, the same batch after a
  recall, a context over a given world state for a given caller, and a clock.
\<close>

definition exClock :: "nat \<Rightarrow> string" where
  "exClock k = (if k = 0 then ''2024-01-01 10:00:00'' else ''2024-01-01 10:00:01'')"

definition exDrug :: Drug where
  "exDrug = \<lparr>DrugID = ''DRUG-1'', Name = ''ParacetamolX'', Manufacturer = ''Cipla'',
     BatchNumber = ''B100'', MfgDate = ''2024-01-01'', ExpiryDate = ''2026-01-01'',
     Composition = ''Paracetamol 500mg'', CurrentOwner = ''Cipla'',
     Status = ''InProduction'',
     History = [''2024-01-01 10:00:00|Created|Cipla|-|Batch: B100''],
     IsRecalled = False, InspectionNotes = []\<rparr>"

definition exCtx :: "string option \<Rightarrow> (string \<rightharpoonup> bytes) \<Rightarrow> ctx" where
  "exCtx who s = \<lparr>clientMSPID = who, worldState = s, getStateFails = False,
     putStateFails = False, event = None, clock = exClock\<rparr>"

definition exStore :: "string \<rightharpoonup> bytes" where
  "exStore = [''DRUG-1'' \<mapsto> Marshalled exDrug]"

definition exRecalled :: Drug where
  "exRecalled = exDrug\<lparr>Status := ''Recalled'', IsRecalled := True,
     InspectionNotes := [''2024-01-01 10:00:00: contamination''],
     History := History exDrug @ [''2024-01-01 10:00:01|Recalled|CDSCO|-|Reason: contamination'']\<rparr>"

text \<open>
  A shipment by Cipla, a list of requests that tries every entry point on
  \<open>DRUG-1\<close>, and a world state whose bytes at \<open>DRUG-1\<close> are not JSON.
\<close>

definition exShip :: "ctx \<times> call" where
  "exShip = (exCtx (Some ''CiplaMSP'') Map.empty, Ship ''DRUG-1'' ''Medlife'')"

definition exRequests :: "(ctx \<times> call) list" where
  "exRequests =
     [exShip,
      (exCtx (Some ''CiplaMSP'') Map.empty,
         Register ''DRUG-1'' ''Other'' ''B200'' ''2024-02-02'' ''2026-02-02'' ''X''),
      (exCtx (Some ''CDSCOMSP'') Map.empty, Recall ''DRUG-1'' ''again''),
      (exCtx None Map.empty, Track ''DRUG-1'')]"

definition exCorrupt :: "string \<rightharpoonup> bytes" where
  "exCorrupt = [''DRUG-1'' \<mapsto> Undecodable zeroDrug]"

lemmas ex_defs = exCtx_def exStore_def exDrug_def exClock_def exRecalled_def

section \<open>Properties\<close>

subsection \<open>The strings the codec keeps\<close>

text \<open>
  A well-formed sequence is kept whatever follows it, the replacement character is
  well formed, so coercing twice is coercing once; and an ASCII byte is a
  boundary: the coercion of a string splits at it.
\<close>

declare toValidUTF8.simps [simp del]

lemma runeSize_le_length: "runeSize u \<le> length u"
  by (cases u) (auto split: prod.splits)

lemma runeSize_append:
  assumes "0 < runeSize u"
  shows "runeSize (u @ t) = runeSize u"
proof (cases u)
  case Nil
  with assms show ?thesis by simp
next
  case (Cons a s)
  obtain sz lo hi where l: "leadByte a = (sz, lo, hi)" by (cases "leadByte a")
  show ?thesis
  proof (cases "sz \<le> 1")
    case True
    with Cons l show ?thesis by simp
  next
    case False
    with assms Cons l have len: "sz - 1 \<le> length s"
      and h: "inRange lo hi (hd s)"
      and c: "list_all (inRange 0x80 0xBF) (take (sz - 2) (tl s))"
      by (auto split: if_splits)
    from False len have ne: "s \<noteq> []" by auto
    then have hd: "hd (s @ t) = hd s" and tl: "tl (s @ t) = tl s @ t" by simp_all
    from len ne have "sz - 2 \<le> length (tl s)" by (cases s) auto
    then have "take (sz - 2) (tl s @ t) = take (sz - 2) (tl s)" by simp
    with False len h c hd tl Cons l show ?thesis by simp
  qed
qed

lemma toValidUTF8_rune:
  assumes "0 < runeSize u"
  shows "toValidUTF8 (u @ t) = take (runeSize u) u @ toValidUTF8 (drop (runeSize u) u @ t)"
proof -
  from assms obtain a s where u: "u = a # s" by (cases u) auto
  have n: "runeSize (u @ t) = runeSize u" using assms by (rule runeSize_append)
  have le: "runeSize u \<le> length u" by (rule runeSize_le_length)
  from u have "toValidUTF8 (u @ t) = toValidUTF8 (a # (s @ t))" by simp
  also have "\<dots> = take (runeSize (u @ t)) (u @ t) @ toValidUTF8 (drop (runeSize (u @ t)) (u @ t))"
    using assms n u by (simp add: toValidUTF8.simps)
  also have "\<dots> = take (runeSize u) u @ toValidUTF8 (drop (runeSize u) u @ t)"
    using n le by simp
  finally show ?thesis .
qed

lemma runeSize_replacementChar: "runeSize replacementChar = 3"
  by (simp add: replacementChar_def leadByte_def inRange_def)

lemma toValidUTF8_replacementChar:
  "toValidUTF8 (replacementChar @ t) = replacementChar @ toValidUTF8 t"
  using toValidUTF8_rune [of replacementChar t]
  by (simp add: runeSize_replacementChar) (simp add: replacementChar_def)

lemma runeSize_take:
  assumes "0 < runeSize u"
  shows "runeSize (take (runeSize u) u) = runeSize u"
proof (cases u)
  case Nil
  with assms show ?thesis by simp
next
  case (Cons a s)
  obtain sz lo hi where l: "leadByte a = (sz, lo, hi)" by (cases "leadByte a")
  show ?thesis
  proof (cases "sz \<le> 1")
    case True
    with assms Cons l have "runeSize u = 1" by simp
    with True Cons l show ?thesis by simp
  next
    case False
    with assms Cons l have len: "sz - 1 \<le> length s"
      and h: "inRange lo hi (hd s)"
      and c: "list_all (inRange 0x80 0xBF) (take (sz - 2) (tl s))"
      and n: "runeSize u = sz"
      by (auto split: if_splits)
    from False len obtain b s' where s: "s = b # s'" by (cases s) auto
    from False have sz: "sz = Suc (Suc (sz - 2))" by simp
    have "take sz (a # s) = a # b # take (sz - 2) s'"
      by (subst sz) (simp add: s)
    with False len h c l s show ?thesis
      unfolding n Cons by (auto simp: min_def)
  qed
qed

lemma toValidUTF8_take_rune:
  assumes "0 < runeSize u"
  shows "toValidUTF8 (take (runeSize u) u @ t) = take (runeSize u) u @ toValidUTF8 t"
proof -
  let ?p = "take (runeSize u) u"
  have sz: "runeSize ?p = runeSize u" using assms by (rule runeSize_take)
  have len: "length ?p = runeSize u" using runeSize_le_length [of u] by simp
  from toValidUTF8_rune [of ?p t] assms sz len show ?thesis by simp
qed

lemma toValidUTF8_idem: "toValidUTF8 (toValidUTF8 s) = toValidUTF8 s"
proof (induction s rule: toValidUTF8.induct)
  case 1
  show ?case by (simp add: toValidUTF8.simps)
next
  case (2 a s)
  show ?case
  proof (cases "runeSize (a # s) = 0")
    case True
    with 2 show ?thesis
      by (simp add: toValidUTF8.simps(2) [of a s] toValidUTF8_replacementChar)
  next
    case False
    then have pos: "0 < runeSize (a # s)" by simp
    from False 2 toValidUTF8_take_rune [OF pos] show ?thesis
      by (simp add: toValidUTF8.simps(2) [of a s])
  qed
qed

lemma toValidUTF8_ascii:
  assumes "of_char c < (0x80::nat)"
  shows "toValidUTF8 (c # s) = c # toValidUTF8 s"
  using assms by (simp add: toValidUTF8.simps leadByte_def)

lemma runeSize_ascii_boundary:
  assumes "of_char c < (0x80::nat)" and "runeSize u = 0" and "u \<noteq> []"
  shows "runeSize (u @ c # t) = 0"
proof -
  from assms obtain a s where u: "u = a # s" by (cases u) auto
  obtain sz lo hi where l: "leadByte a = (sz, lo, hi)" by (cases "leadByte a")
  have lo: "sz > 1 \<Longrightarrow> 0x80 \<le> lo"
    using l by (auto simp: leadByte_def Let_def split: if_splits)
  have nc: "\<not> inRange 0x80 0xBF c" "sz > 1 \<Longrightarrow> \<not> inRange lo hi c"
    using assms(1) lo by (auto simp: inRange_def)
  show ?thesis
  proof (cases "sz \<le> 1")
    case True
    with assms u l show ?thesis by simp
  next
    case False
    then have sz: "1 < sz" by simp
    show ?thesis
    proof (cases s)
      case Nil
      with u l sz nc show ?thesis by simp
    next
      case (Cons b s')
      show ?thesis
      proof (cases "inRange lo hi b")
        case False
        with u l sz Cons show ?thesis by simp
      next
        case True
        show ?thesis
        proof (cases "length s < sz - 1")
          case short: True
          then have "length s' < sz - 2" using Cons by simp
          then have "take (sz - 2) (s' @ c # t) = s' @ c # take (sz - 2 - Suc (length s')) t"
            by (simp add: take_Cons')
          with u l sz Cons True nc show ?thesis by simp
        next
          case long: False
          with assms(2) u l sz Cons True
          have "\<not> list_all (inRange 0x80 0xBF) (take (sz - 2) s')"
            by (auto split: if_splits)
          moreover from long Cons have "take (sz - 2) (s' @ c # t) = take (sz - 2) s'"
            by simp
          ultimately show ?thesis using u l sz Cons True by simp
        qed
      qed
    qed
  qed
qed

lemma toValidUTF8_ascii_boundary:
  assumes "of_char c < (0x80::nat)"
  shows "toValidUTF8 (u @ c # t) = toValidUTF8 u @ c # toValidUTF8 t"
proof (induction u rule: toValidUTF8.induct)
  case 1
  show ?case using assms by (simp add: toValidUTF8_ascii) (simp add: toValidUTF8.simps)
next
  case (2 a s)
  show ?case
  proof (cases "runeSize (a # s) = 0")
    case True
    with assms have "runeSize ((a # s) @ c # t) = 0"
      by (intro runeSize_ascii_boundary) simp_all
    with True 2 show ?thesis
      by (simp add: toValidUTF8.simps(2) [of a s] toValidUTF8.simps(2) [of a "s @ c # t"])
  next
    case False
    then have pos: "0 < runeSize (a # s)" by simp
    from toValidUTF8_rune [OF pos, of "c # t"] toValidUTF8_rune [OF pos, of "[]"] False 2
    show ?thesis by simp
  qed
qed

lemmas utf8_simps = toValidUTF8.simps(1) toValidUTF8_ascii toValidUTF8_ascii_boundary

lemma toValidUTF8Drug_idem: "toValidUTF8Drug (toValidUTF8Drug d) = toValidUTF8Drug d"
  by (simp add: toValidUTF8Drug_def toValidUTF8_idem)

lemma json_Unmarshal_case:
  "json_Unmarshal b =
     (case b of Marshalled d \<Rightarrow> (toValidUTF8Drug d, None) | Undecodable d \<Rightarrow> (d, Some DecodeError))"
  by (cases b) simp_all

lemma readDrug_Some:
  "readDrug s k = Some d \<longleftrightarrow> (\<exists>d0. s k = Some (Marshalled d0) \<and> d = toValidUTF8Drug d0)"
  by (auto simp: readDrug_def json_Unmarshal_case split: option.splits bytes.splits)

lemma readDrug_valid:
  assumes "readDrug s k = Some d"
  shows "toValidUTF8Drug d = d"
  using assms by (auto simp: readDrug_Some toValidUTF8Drug_idem)

lemma valid_fields:
  assumes "toValidUTF8Drug d = d"
  shows "toValidUTF8 (DrugID d) = DrugID d" "toValidUTF8 (Name d) = Name d"
    "toValidUTF8 (Manufacturer d) = Manufacturer d" "toValidUTF8 (BatchNumber d) = BatchNumber d"
    "toValidUTF8 (MfgDate d) = MfgDate d" "toValidUTF8 (ExpiryDate d) = ExpiryDate d"
    "toValidUTF8 (Composition d) = Composition d" "toValidUTF8 (CurrentOwner d) = CurrentOwner d"
    "toValidUTF8 (Status d) = Status d" "map toValidUTF8 (History d) = History d"
    "map toValidUTF8 (InspectionNotes d) = InspectionNotes d"
proof -
  have "DrugID (toValidUTF8Drug d) = DrugID d" "Name (toValidUTF8Drug d) = Name d"
    "Manufacturer (toValidUTF8Drug d) = Manufacturer d"
    "BatchNumber (toValidUTF8Drug d) = BatchNumber d"
    "MfgDate (toValidUTF8Drug d) = MfgDate d" "ExpiryDate (toValidUTF8Drug d) = ExpiryDate d"
    "Composition (toValidUTF8Drug d) = Composition d"
    "CurrentOwner (toValidUTF8Drug d) = CurrentOwner d"
    "Status (toValidUTF8Drug d) = Status d" "History (toValidUTF8Drug d) = History d"
    "InspectionNotes (toValidUTF8Drug d) = InspectionNotes d"
    by (simp_all only: assms)
  then show "toValidUTF8 (DrugID d) = DrugID d" "toValidUTF8 (Name d) = Name d"
    "toValidUTF8 (Manufacturer d) = Manufacturer d" "toValidUTF8 (BatchNumber d) = BatchNumber d"
    "toValidUTF8 (MfgDate d) = MfgDate d" "toValidUTF8 (ExpiryDate d) = ExpiryDate d"
    "toValidUTF8 (Composition d) = Composition d" "toValidUTF8 (CurrentOwner d) = CurrentOwner d"
    "toValidUTF8 (Status d) = Status d" "map toValidUTF8 (History d) = History d"
    "map toValidUTF8 (InspectionNotes d) = InspectionNotes d"
    by (simp_all add: toValidUTF8Drug_def)
qed

text \<open>The record \<^verbatim>\<open>ShipDrug\<close> writes, and the one \<^verbatim>\<open>RecallDrug\<close> writes, as stored.\<close>

lemma shipped_stored:
  assumes "toValidUTF8Drug d = d"
  shows "toValidUTF8Drug (d\<lparr>CurrentOwner := to, Status := ''InTransit'',
            History := History d @ [ts @ ''|Shipped|'' @ CurrentOwner d @ ''|'' @ to @ ''|'']\<rparr>) =
         d\<lparr>CurrentOwner := toValidUTF8 to, Status := ''InTransit'',
            History := History d @
              [toValidUTF8 ts @ ''|Shipped|'' @ CurrentOwner d @ ''|'' @ toValidUTF8 to @ ''|'']\<rparr>"
  using valid_fields [OF assms]
  by (simp add: toValidUTF8Drug_def utf8_simps)

lemma recalled_stored:
  assumes "toValidUTF8Drug d = d"
  shows "toValidUTF8Drug (d\<lparr>IsRecalled := True, Status := ''Recalled'',
            InspectionNotes := InspectionNotes d @ [ts @ '': '' @ reason],
            History := History d @ [ts' @ ''|Recalled|CDSCO|-|Reason: '' @ reason]\<rparr>) =
         d\<lparr>IsRecalled := True, Status := ''Recalled'',
            InspectionNotes := InspectionNotes d @ [toValidUTF8 ts @ '': '' @ toValidUTF8 reason],
            History := History d @
              [toValidUTF8 ts' @ ''|Recalled|CDSCO|-|Reason: '' @ toValidUTF8 reason]\<rparr>"
  using valid_fields [OF assms]
  by (simp add: toValidUTF8Drug_def utf8_simps)

lemmas op_defs = ShipDrug_def RecallDrug_def RegisterDrug_def TrackDrug_def
  GetState_def PutState_def SetEvent_def getMSPID_def getTimestamp_def json_Marshal_def
  json_Unmarshal_case

subsection \<open>What one operation does to the world state\<close>

lemma RegisterDrug_state:
  "worldState c k = Some b \<Longrightarrow>
   worldState (snd (RegisterDrug c i n bn m e co)) k = Some b"
  by (auto simp: op_defs split: option.splits if_splits)

lemma ShipDrug_success:
  assumes "fst (ShipDrug c i to) = None" and "readDrug (worldState c) i = Some d"
  shows "snd (ShipDrug c i to) = c\<lparr>event := Some (''DrugShipped'', i),
     worldState := (worldState c)(i \<mapsto> Marshalled
      (d\<lparr>CurrentOwner := toValidUTF8 to, Status := ''InTransit'',
         History := History d @
           [toValidUTF8 (clock c 0) @ ''|Shipped|'' @ CurrentOwner d @ ''|'' @ toValidUTF8 to @ ''|'']\<rparr>))\<rparr>"
proof -
  from assms(2) obtain d0 where s: "worldState c i = Some (Marshalled d0)"
    and d: "d = toValidUTF8Drug d0"
    by (auto simp: readDrug_Some)
  have v: "toValidUTF8Drug d = d" using assms(2) by (rule readDrug_valid)
  from assms(1) s d have "snd (ShipDrug c i to) = c\<lparr>event := Some (''DrugShipped'', i),
     worldState := (worldState c)(i \<mapsto> Marshalled (toValidUTF8Drug
      (d\<lparr>CurrentOwner := to, Status := ''InTransit'',
         History := History d @
           [clock c 0 @ ''|Shipped|'' @ CurrentOwner d @ ''|'' @ to @ ''|'']\<rparr>)))\<rparr>"
    by (auto simp: op_defs Let_def split: option.splits if_splits)
  then show ?thesis by (simp only: shipped_stored [OF v])
qed

lemma RecallDrug_success:
  assumes "fst (RecallDrug c i reason) = None" and "readDrug (worldState c) i = Some d"
  shows "snd (RecallDrug c i reason) = c\<lparr>event := Some (''DrugRecalled'', i),
     worldState := (worldState c)(i \<mapsto> Marshalled
      (d\<lparr>IsRecalled := True, Status := ''Recalled'',
         InspectionNotes := InspectionNotes d @
           [toValidUTF8 (clock c 0) @ '': '' @ toValidUTF8 reason],
         History := History d @
           [toValidUTF8 (clock c 1) @ ''|Recalled|CDSCO|-|Reason: '' @ toValidUTF8 reason]\<rparr>))\<rparr>"
proof -
  from assms(2) obtain d0 where s: "worldState c i = Some (Marshalled d0)"
    and d: "d = toValidUTF8Drug d0"
    by (auto simp: readDrug_Some)
  have v: "toValidUTF8Drug d = d" using assms(2) by (rule readDrug_valid)
  from assms(1) s d have "snd (RecallDrug c i reason) = c\<lparr>event := Some (''DrugRecalled'', i),
     worldState := (worldState c)(i \<mapsto> Marshalled (toValidUTF8Drug
      (d\<lparr>IsRecalled := True, Status := ''Recalled'',
         InspectionNotes := InspectionNotes d @ [clock c 0 @ '': '' @ reason],
         History := History d @ [clock c 1 @ ''|Recalled|CDSCO|-|Reason: '' @ reason]\<rparr>)))\<rparr>"
    by (auto simp: op_defs Let_def split: option.splits if_splits)
  then show ?thesis by (simp only: recalled_stored [OF v])
qed

lemma ShipDrug_fails: "fst (ShipDrug c i to) \<noteq> None \<Longrightarrow> worldState (snd (ShipDrug c i to)) = worldState c"
  by (auto simp: op_defs Let_def split: option.splits if_splits bytes.splits)

lemma RecallDrug_fails:
  "fst (RecallDrug c i reason) \<noteq> None \<Longrightarrow> worldState (snd (RecallDrug c i reason)) = worldState c"
  by (auto simp: op_defs Let_def split: option.splits if_splits bytes.splits)

lemma ShipDrug_other:
  "k \<noteq> i \<Longrightarrow> worldState (snd (ShipDrug c i to)) k = worldState c k"
  by (auto simp: op_defs Let_def split: option.splits if_splits bytes.splits)

lemma RecallDrug_other:
  "k \<noteq> i \<Longrightarrow> worldState (snd (RecallDrug c i reason)) k = worldState c k"
  by (auto simp: op_defs Let_def split: option.splits if_splits bytes.splits)

lemma readDrug_Marshalled:
  "toValidUTF8Drug d = d \<Longrightarrow> readDrug (s(k \<mapsto> Marshalled d)) k = Some d"
  by (simp add: readDrug_def)

lemma ShipDrug_success_read:
  assumes "fst (ShipDrug c k to) = None" and "readDrug (worldState c) k = Some d"
  shows "readDrug (worldState (snd (ShipDrug c k to))) k = Some
      (d\<lparr>CurrentOwner := toValidUTF8 to, Status := ''InTransit'',
         History := History d @
           [toValidUTF8 (clock c 0) @ ''|Shipped|'' @ CurrentOwner d @ ''|'' @ toValidUTF8 to @ ''|'']\<rparr>)"
proof -
  let ?d = "d\<lparr>CurrentOwner := toValidUTF8 to, Status := ''InTransit'',
         History := History d @
           [toValidUTF8 (clock c 0) @ ''|Shipped|'' @ CurrentOwner d @ ''|'' @ toValidUTF8 to @ ''|'']\<rparr>"
  have v: "toValidUTF8Drug d = d" using assms(2) by (rule readDrug_valid)
  have v': "toValidUTF8Drug ?d = ?d"
    using shipped_stored [OF v, where to = to and ts = "clock c 0", symmetric]
    by (simp only: toValidUTF8Drug_idem)
  from ShipDrug_success [OF assms]
  have "worldState (snd (ShipDrug c k to)) = (worldState c)(k \<mapsto> Marshalled ?d)"
    by simp
  then show ?thesis
    using readDrug_Marshalled [OF v'] by (simp only:)
qed

lemma RecallDrug_success_read:
  assumes "fst (RecallDrug c k reason) = None" and "readDrug (worldState c) k = Some d"
  shows "readDrug (worldState (snd (RecallDrug c k reason))) k = Some
      (d\<lparr>IsRecalled := True, Status := ''Recalled'',
         InspectionNotes := InspectionNotes d @
           [toValidUTF8 (clock c 0) @ '': '' @ toValidUTF8 reason],
         History := History d @
           [toValidUTF8 (clock c 1) @ ''|Recalled|CDSCO|-|Reason: '' @ toValidUTF8 reason]\<rparr>)"
proof -
  let ?d = "d\<lparr>IsRecalled := True, Status := ''Recalled'',
         InspectionNotes := InspectionNotes d @
           [toValidUTF8 (clock c 0) @ '': '' @ toValidUTF8 reason],
         History := History d @
           [toValidUTF8 (clock c 1) @ ''|Recalled|CDSCO|-|Reason: '' @ toValidUTF8 reason]\<rparr>"
  have v: "toValidUTF8Drug d = d" using assms(2) by (rule readDrug_valid)
  have v': "toValidUTF8Drug ?d = ?d"
    using recalled_stored [OF v, where ts = "clock c 0" and reason = reason and ts' = "clock c 1",
        symmetric]
    by (simp only: toValidUTF8Drug_idem)
  from RecallDrug_success [OF assms]
  have "worldState (snd (RecallDrug c k reason)) = (worldState c)(k \<mapsto> Marshalled ?d)"
    by simp
  then show ?thesis
    using readDrug_Marshalled [OF v'] by (simp only:)
qed

lemma ShipDrug_commit:
  assumes "readDrug (worldState c) k = Some d"
  shows "readDrug (worldState (snd (ShipDrug c i to))) k = Some d \<or>
   i = k \<and> fst (ShipDrug c i to) = None \<and>
   readDrug (worldState (snd (ShipDrug c i to))) k = Some
      (d\<lparr>CurrentOwner := toValidUTF8 to, Status := ''InTransit'',
         History := History d @
           [toValidUTF8 (clock c 0) @ ''|Shipped|'' @ CurrentOwner d @ ''|'' @ toValidUTF8 to @ ''|'']\<rparr>)"
proof (cases "i = k \<and> fst (ShipDrug c i to) = None")
  case True
  then have ik: "i = k" and ok: "fst (ShipDrug c k to) = None" by blast+
  from ShipDrug_success_read [OF ok assms] ik ok show ?thesis by blast
next
  case False
  have "worldState (snd (ShipDrug c i to)) k = worldState c k"
  proof (cases "k = i")
    case True
    with False have "fst (ShipDrug c i to) \<noteq> None" by auto
    then show ?thesis by (simp add: ShipDrug_fails)
  next
    case False
    then show ?thesis by (rule ShipDrug_other)
  qed
  with assms show ?thesis by (simp add: readDrug_def)
qed

lemma RecallDrug_commit:
  assumes "readDrug (worldState c) k = Some d"
  shows "readDrug (worldState (snd (RecallDrug c i reason))) k = Some d \<or>
   i = k \<and> fst (RecallDrug c i reason) = None \<and>
   readDrug (worldState (snd (RecallDrug c i reason))) k = Some
      (d\<lparr>IsRecalled := True, Status := ''Recalled'',
         InspectionNotes := InspectionNotes d @
           [toValidUTF8 (clock c 0) @ '': '' @ toValidUTF8 reason],
         History := History d @
           [toValidUTF8 (clock c 1) @ ''|Recalled|CDSCO|-|Reason: '' @ toValidUTF8 reason]\<rparr>)"
proof (cases "i = k \<and> fst (RecallDrug c i reason) = None")
  case True
  then have ik: "i = k" and ok: "fst (RecallDrug c k reason) = None" by blast+
  from RecallDrug_success_read [OF ok assms] ik ok show ?thesis by blast
next
  case False
  have "worldState (snd (RecallDrug c i reason)) k = worldState c k"
  proof (cases "k = i")
    case True
    with False have "fst (RecallDrug c i reason) \<noteq> None" by auto
    then show ?thesis by (simp add: RecallDrug_fails)
  next
    case False
    then show ?thesis by (rule RecallDrug_other)
  qed
  with assms show ?thesis by (simp add: readDrug_def)
qed

lemma commit_cases:
  assumes "readDrug s k = Some d"
  shows "readDrug (commit r s) k = Some d
       \<or> (\<exists>to t. fst (invoke r s) = None \<and> snd r = Ship k to \<and> readDrug (commit r s) k = Some
              (d\<lparr>CurrentOwner := toValidUTF8 to, Status := ''InTransit'',
                 History := History d @ [t]\<rparr>))
       \<or> (\<exists>n h. readDrug (commit r s) k = Some
              (d\<lparr>IsRecalled := True, Status := ''Recalled'',
                 InspectionNotes := InspectionNotes d @ [n], History := History d @ [h]\<rparr>))"
proof (cases "snd r")
  case (Register i n b m e co)
  from assms obtain b0 where "s k = Some b0" by (auto simp: readDrug_def split: option.splits)
  with Register have "commit r s k = s k"
    by (simp add: commit_def invoke_def RegisterDrug_state)
  with assms show ?thesis by (simp add: readDrug_def)
next
  case (Ship i to)
  let ?c = "(fst r)\<lparr>worldState := s, event := None\<rparr>"
  from assms have "readDrug (worldState ?c) k = Some d" by simp
  from ShipDrug_commit [OF this, of i to]
  have "readDrug (worldState (snd (ShipDrug ?c i to))) k = Some d \<or>
     i = k \<and> fst (ShipDrug ?c i to) = None \<and>
     readDrug (worldState (snd (ShipDrug ?c i to))) k = Some
      (d\<lparr>CurrentOwner := toValidUTF8 to, Status := ''InTransit'',
         History := History d @
           [toValidUTF8 (clock (fst r) 0) @ ''|Shipped|'' @ CurrentOwner d @ ''|'' @
            toValidUTF8 to @ ''|'']\<rparr>)"
    by simp
  moreover have cm: "commit r s = worldState (snd (ShipDrug ?c i to))"
    and fi: "fst (invoke r s) = fst (ShipDrug ?c i to)"
    using Ship by (simp_all add: commit_def invoke_def)
  ultimately show ?thesis
  proof (elim disjE conjE)
    assume "readDrug (worldState (snd (ShipDrug ?c i to))) k = Some d"
    with cm show ?thesis by simp
  next
    assume ik: "i = k" and ok: "fst (ShipDrug ?c i to) = None"
      and rd: "readDrug (worldState (snd (ShipDrug ?c i to))) k = Some
        (d\<lparr>CurrentOwner := toValidUTF8 to, Status := ''InTransit'',
           History := History d @
             [toValidUTF8 (clock (fst r) 0) @ ''|Shipped|'' @ CurrentOwner d @ ''|'' @
              toValidUTF8 to @ ''|'']\<rparr>)"
    from ik Ship have "snd r = Ship k to" by simp
    moreover from ok fi have "fst (invoke r s) = None" by simp
    moreover from rd cm have "readDrug (commit r s) k = Some
        (d\<lparr>CurrentOwner := toValidUTF8 to, Status := ''InTransit'',
           History := History d @
             [toValidUTF8 (clock (fst r) 0) @ ''|Shipped|'' @ CurrentOwner d @ ''|'' @
              toValidUTF8 to @ ''|'']\<rparr>)"
      by simp
    ultimately show ?thesis by blast
  qed
next
  case (Recall i reason)
  let ?c = "(fst r)\<lparr>worldState := s, event := None\<rparr>"
  from assms have "readDrug (worldState ?c) k = Some d" by simp
  from RecallDrug_commit [OF this, of i reason]
  have "readDrug (worldState (snd (RecallDrug ?c i reason))) k = Some d \<or>
     i = k \<and> fst (RecallDrug ?c i reason) = None \<and>
     readDrug (worldState (snd (RecallDrug ?c i reason))) k = Some
      (d\<lparr>IsRecalled := True, Status := ''Recalled'',
         InspectionNotes := InspectionNotes d @
           [toValidUTF8 (clock (fst r) 0) @ '': '' @ toValidUTF8 reason],
         History := History d @
           [toValidUTF8 (clock (fst r) 1) @ ''|Recalled|CDSCO|-|Reason: '' @
            toValidUTF8 reason]\<rparr>)"
    by simp
  moreover have cm: "commit r s = worldState (snd (RecallDrug ?c i reason))"
    using Recall by (simp add: commit_def invoke_def)
  ultimately show ?thesis
  proof (elim disjE conjE)
    assume "readDrug (worldState (snd (RecallDrug ?c i reason))) k = Some d"
    with cm show ?thesis by simp
  next
    assume "readDrug (worldState (snd (RecallDrug ?c i reason))) k = Some
      (d\<lparr>IsRecalled := True, Status := ''Recalled'',
         InspectionNotes := InspectionNotes d @
           [toValidUTF8 (clock (fst r) 0) @ '': '' @ toValidUTF8 reason],
         History := History d @
           [toValidUTF8 (clock (fst r) 1) @ ''|Recalled|CDSCO|-|Reason: '' @
            toValidUTF8 reason]\<rparr>)"
    with cm have "readDrug (commit r s) k = Some
      (d\<lparr>IsRecalled := True, Status := ''Recalled'',
         InspectionNotes := InspectionNotes d @
           [toValidUTF8 (clock (fst r) 0) @ '': '' @ toValidUTF8 reason],
         History := History d @
           [toValidUTF8 (clock (fst r) 1) @ ''|Recalled|CDSCO|-|Reason: '' @
            toValidUTF8 reason]\<rparr>)"
      by simp
    then show ?thesis by blast
  qed
next
  case (Track i)
  with assms show ?thesis
    by (simp add: commit_def invoke_def split: sum.splits)
qed


lemma commit_present: "s k \<noteq> None \<Longrightarrow> commit r s k \<noteq> None"
proof (cases "snd r")
  case (Register i n bn m e co)
  assume "s k \<noteq> None"
  then obtain b where "s k = Some b" by auto
  with Register show ?thesis
    by (simp add: commit_def invoke_def RegisterDrug_state)
next
  case (Ship i to)
  assume "s k \<noteq> None"
  then show ?thesis using Ship
    by (auto simp: commit_def invoke_def op_defs Let_def split: option.splits if_splits bytes.splits)
next
  case (Recall i reason)
  assume "s k \<noteq> None"
  then show ?thesis using Recall
    by (auto simp: commit_def invoke_def op_defs Let_def split: option.splits if_splits bytes.splits)
next
  case (Track i)
  assume "s k \<noteq> None"
  with Track show ?thesis
    by (simp add: commit_def invoke_def split: sum.splits)
qed

lemma run_present: "s k \<noteq> None \<Longrightarrow> run rs s k \<noteq> None"
proof (induction rs arbitrary: s)
  case Nil
  then show ?case by simp
next
  case (Cons r rs)
  from Cons.prems have "commit r s k \<noteq> None" by (rule commit_present)
  then show ?case using Cons.IH by simp
qed

lemma commit_frame:
  assumes "readDrug s k = Some d"
  shows "\<exists>d'. readDrug (commit r s) k = Some d'
     \<and> DrugID d' = DrugID d \<and> Name d' = Name d \<and> Manufacturer d' = Manufacturer d
     \<and> BatchNumber d' = BatchNumber d \<and> MfgDate d' = MfgDate d
     \<and> ExpiryDate d' = ExpiryDate d \<and> Composition d' = Composition d
     \<and> (History d' = History d \<or> (\<exists>e. History d' = History d @ [e]))
     \<and> (IsRecalled d \<longrightarrow> IsRecalled d')"
proof -
  from commit_cases [of s k d r] assms consider
      "readDrug (commit r s) k = Some d"
    | to t where "readDrug (commit r s) k = Some
        (d\<lparr>CurrentOwner := toValidUTF8 to, Status := ''InTransit'', History := History d @ [t]\<rparr>)"
    | n h where "readDrug (commit r s) k = Some
        (d\<lparr>IsRecalled := True, Status := ''Recalled'',
           InspectionNotes := InspectionNotes d @ [n], History := History d @ [h]\<rparr>)"
    by blast
  then show ?thesis by cases simp_all
qed

lemma run_frame:
  assumes "readDrug s k = Some d"
  shows "\<exists>d'. readDrug (run rs s) k = Some d'
     \<and> DrugID d' = DrugID d \<and> Name d' = Name d \<and> Manufacturer d' = Manufacturer d
     \<and> BatchNumber d' = BatchNumber d \<and> MfgDate d' = MfgDate d
     \<and> ExpiryDate d' = ExpiryDate d \<and> Composition d' = Composition d
     \<and> prefix (History d) (History d')
     \<and> (IsRecalled d \<longrightarrow> IsRecalled d')"
  using assms
proof (induction rs arbitrary: s d)
  case Nil
  then show ?case by simp
next
  case (Cons r rs)
  from commit_frame [of s k d r] Cons.prems obtain d1 where
    c: "readDrug (commit r s) k = Some d1"
    and f: "DrugID d1 = DrugID d" "Name d1 = Name d" "Manufacturer d1 = Manufacturer d"
      "BatchNumber d1 = BatchNumber d" "MfgDate d1 = MfgDate d"
      "ExpiryDate d1 = ExpiryDate d" "Composition d1 = Composition d"
    and h: "History d1 = History d \<or> (\<exists>e. History d1 = History d @ [e])"
    and i: "IsRecalled d \<longrightarrow> IsRecalled d1"
    by blast
  from h have p: "prefix (History d) (History d1)" by auto
  from Cons.IH [of "commit r s" d1] c obtain d2 where
    r: "readDrug (run rs (commit r s)) k = Some d2"
    and f2: "DrugID d2 = DrugID d1" "Name d2 = Name d1" "Manufacturer d2 = Manufacturer d1"
      "BatchNumber d2 = BatchNumber d1" "MfgDate d2 = MfgDate d1"
      "ExpiryDate d2 = ExpiryDate d1" "Composition d2 = Composition d1"
    and p2: "prefix (History d1) (History d2)"
    and i2: "IsRecalled d1 \<longrightarrow> IsRecalled d2"
    by blast
  from p p2 have "prefix (History d) (History d2)" by (rule prefix_order.trans)
  with r f f2 i i2 show ?case by simp
qed

text \<open>The records of the scenario are stored as they are.\<close>

lemma ex_valid: "toValidUTF8Drug exDrug = exDrug" "toValidUTF8Drug exRecalled = exRecalled"
  by (simp_all add: toValidUTF8Drug_def exDrug_def exRecalled_def utf8_simps)

lemma ex_read:
  "readDrug exStore ''DRUG-1'' = Some exDrug"
  "readDrug [''DRUG-1'' \<mapsto> Marshalled exRecalled] ''DRUG-1'' = Some exRecalled"
  by (simp_all add: readDrug_def exStore_def ex_valid)

subsection \<open>ShipDrug: the custodian check\<close>

text \<open>
  Claim C10. \<^verbatim>\<open>ShipDrug\<close> takes the caller's role as
  \<^verbatim>\<open>mspID[:len(mspID)-3]\<close>, which is in bounds only for an MSP ID of at least
  three bytes. On a stored record that decodes, the call panics exactly when the
  resolved MSP ID is shorter than that; in particular it panics, instead of
  returning the unauthorized error, when identity resolution fails, because the
  error is dropped and the MSP ID is then the empty string.
\<close>

theorem ShipDrug_slice_bounds:
  assumes "worldState c drugID = Some (Marshalled d)" and "\<not> getStateFails c"
  shows "(fst (ShipDrug c drugID to) = Some Panic \<longleftrightarrow> length (fst (getMSPID c)) < 3)
       \<and> (clientMSPID c = None \<longrightarrow> ShipDrug c drugID to = (Some Panic, c))"
  using assms
  by (auto simp: op_defs Let_def split: option.splits if_splits)

text \<open>
  The scenario: a failed identity resolution and a two-byte MSP ID give a panic,
  \<open>CiplaMSP\<close> does not.
\<close>

theorem ShipDrug_slice_bounds_witness:
  "worldState (exCtx None exStore) ''DRUG-1'' = Some (Marshalled exDrug)
   \<and> \<not> getStateFails (exCtx None exStore)
   \<and> clientMSPID (exCtx None exStore) = None
   \<and> ShipDrug (exCtx None exStore) ''DRUG-1'' ''Medlife'' = (Some Panic, exCtx None exStore)
   \<and> fst (ShipDrug (exCtx (Some ''MS'') exStore) ''DRUG-1'' ''Medlife'') = Some Panic
   \<and> fst (ShipDrug (exCtx (Some ''CiplaMSP'') exStore) ''DRUG-1'' ''Medlife'') \<noteq> Some Panic"
  using ShipDrug_slice_bounds [of "exCtx None exStore" "''DRUG-1''" exDrug "''Medlife''"]
    ShipDrug_slice_bounds [of "exCtx (Some ''MS'') exStore" "''DRUG-1''" exDrug "''Medlife''"]
    ShipDrug_slice_bounds [of "exCtx (Some ''CiplaMSP'') exStore" "''DRUG-1''" exDrug "''Medlife''"]
  by (simp add: exCtx_def exStore_def getMSPID_def)

text \<open>
  Claim C1, as the code has it. The check compares \<open>CurrentOwner\<close> with the
  caller's MSP ID without its last three bytes, not with the MSP ID itself, and
  the record is stored through \<^verbatim>\<open>json.Marshal\<close>, which keeps of the destination
  \<open>toValidUTF8 to\<close> (the destination itself when it is valid UTF-8). For a
  caller whose MSP ID has at least three bytes, with the store answering: on a
  stored record that decodes to \<open>d\<close>, \<^verbatim>\<open>ShipDrug\<close> returns no error if and only
  if \<open>CurrentOwner d\<close> equals that truncated MSP ID; it then writes the record
  with \<open>CurrentOwner\<close> set to the destination as the codec keeps it, \<open>Status\<close>
  set to \<open>InTransit\<close> and exactly one entry
  \<open>time|Shipped|old owner|destination|\<close> appended to \<open>History\<close>, every other
  field as it was; otherwise it returns the unauthorized error and leaves the
  context, hence the world state, as it was. With no record at the identifier it
  returns the not-found error.
\<close>

theorem ShipDrug_custodian_check:
  assumes "\<not> getStateFails c" and "\<not> putStateFails c"
    and "clientMSPID c = Some m" and "3 \<le> length m"
  shows "(readDrug (worldState c) drugID = Some d \<longrightarrow>
           (fst (ShipDrug c drugID to) = None \<longleftrightarrow> CurrentOwner d = take (length m - 3) m)
         \<and> (CurrentOwner d = take (length m - 3) m \<longrightarrow>
              ShipDrug c drugID to =
                (None, c\<lparr>event := Some (''DrugShipped'', drugID),
                   worldState := (worldState c)(drugID \<mapsto> Marshalled
                     (d\<lparr>CurrentOwner := toValidUTF8 to, Status := ''InTransit'',
                        History := History d @
                          [toValidUTF8 (clock c 0) @ ''|Shipped|'' @ CurrentOwner d @ ''|'' @
                           toValidUTF8 to @ ''|'']\<rparr>))\<rparr>))
         \<and> (CurrentOwner d \<noteq> take (length m - 3) m \<longrightarrow>
              ShipDrug c drugID to = (Some Unauthorized, c)))
       \<and> (worldState c drugID = None \<longrightarrow> ShipDrug c drugID to = (Some (NotFound drugID), c))"
proof (intro conjI impI)
  assume "worldState c drugID = None"
  with assms show "ShipDrug c drugID to = (Some (NotFound drugID), c)"
    by (simp add: op_defs)
next
  assume r: "readDrug (worldState c) drugID = Some d"
  with assms show iff: "fst (ShipDrug c drugID to) = None \<longleftrightarrow> CurrentOwner d = take (length m - 3) m"
    by (auto simp: readDrug_Some op_defs Let_def split: option.splits if_splits)
  {
    assume "CurrentOwner d = take (length m - 3) m"
    with iff have ok: "fst (ShipDrug c drugID to) = None" by simp
    from ShipDrug_success [OF ok r] ok
    show "ShipDrug c drugID to =
                (None, c\<lparr>event := Some (''DrugShipped'', drugID),
                   worldState := (worldState c)(drugID \<mapsto> Marshalled
                     (d\<lparr>CurrentOwner := toValidUTF8 to, Status := ''InTransit'',
                        History := History d @
                          [toValidUTF8 (clock c 0) @ ''|Shipped|'' @ CurrentOwner d @ ''|'' @
                           toValidUTF8 to @ ''|'']\<rparr>))\<rparr>)"
      by (simp add: prod_eq_iff)
  }
  {
    assume "CurrentOwner d \<noteq> take (length m - 3) m"
    with assms r show "ShipDrug c drugID to = (Some Unauthorized, c)"
      by (auto simp: readDrug_Some op_defs Let_def split: option.splits if_splits)
  }
qed

text \<open>
  The scenario: Cipla ships \<open>DRUG-1\<close> to Medlife; the regulator may not; an
  unknown identifier is not found.
\<close>

theorem ShipDrug_custodian_check_witness:
  "\<not> getStateFails (exCtx (Some ''CiplaMSP'') exStore)
   \<and> \<not> putStateFails (exCtx (Some ''CiplaMSP'') exStore)
   \<and> clientMSPID (exCtx (Some ''CiplaMSP'') exStore) = Some ''CiplaMSP''
   \<and> 3 \<le> length ''CiplaMSP''
   \<and> readDrug (worldState (exCtx (Some ''CiplaMSP'') exStore)) ''DRUG-1'' = Some exDrug
   \<and> CurrentOwner exDrug = take (length ''CiplaMSP'' - 3) ''CiplaMSP''
   \<and> ShipDrug (exCtx (Some ''CiplaMSP'') exStore) ''DRUG-1'' ''Medlife'' =
       (None, (exCtx (Some ''CiplaMSP'') exStore)\<lparr>event := Some (''DrugShipped'', ''DRUG-1''),
          worldState := exStore(''DRUG-1'' \<mapsto> Marshalled
            (exDrug\<lparr>CurrentOwner := ''Medlife'', Status := ''InTransit'',
               History := [''2024-01-01 10:00:00|Created|Cipla|-|Batch: B100'',
                           ''2024-01-01 10:00:00|Shipped|Cipla|Medlife|'']\<rparr>))\<rparr>)
   \<and> ShipDrug (exCtx (Some ''CDSCOMSP'') exStore) ''DRUG-1'' ''Apollo'' =
       (Some Unauthorized, exCtx (Some ''CDSCOMSP'') exStore)
   \<and> ShipDrug (exCtx (Some ''CiplaMSP'') exStore) ''DRUG-404'' ''Medlife'' =
       (Some (NotFound ''DRUG-404''), exCtx (Some ''CiplaMSP'') exStore)"
proof -
  have r: "readDrug (worldState (exCtx (Some ''CiplaMSP'') exStore)) ''DRUG-1'' = Some exDrug"
    "readDrug (worldState (exCtx (Some ''CDSCOMSP'') exStore)) ''DRUG-1'' = Some exDrug"
    by (simp_all add: exCtx_def ex_read)
  from r
    ShipDrug_custodian_check [of "exCtx (Some ''CiplaMSP'') exStore" "''CiplaMSP''"
      "''DRUG-1''" exDrug "''Medlife''"]
    ShipDrug_custodian_check [of "exCtx (Some ''CDSCOMSP'') exStore" "''CDSCOMSP''"
      "''DRUG-1''" exDrug "''Apollo''"]
    ShipDrug_custodian_check [of "exCtx (Some ''CiplaMSP'') exStore" "''CiplaMSP''"
      "''DRUG-404''" exDrug "''Medlife''"]
  show ?thesis
    by (simp add: exCtx_def exStore_def exDrug_def exClock_def utf8_simps)
qed

text \<open>
  Claim C1 as stated fails: a caller whose MSP ID equals \<open>CurrentOwner\<close> byte
  for byte is refused, a caller whose MSP ID differs from it (\<open>CiplaOrg\<close>
  against \<open>Cipla\<close>) ships the batch, a two-byte MSP ID gives a panic, not the
  unauthorized error, and a shipment to the one-byte destination FF stores the
  owner EF BF BD, not the destination.
\<close>

theorem ShipDrug_exact_role_counterexample:
  "clientMSPID (exCtx (Some ''Cipla'') exStore) = Some (CurrentOwner exDrug)
   \<and> ShipDrug (exCtx (Some ''Cipla'') exStore) ''DRUG-1'' ''Medlife'' =
       (Some Unauthorized, exCtx (Some ''Cipla'') exStore)
   \<and> clientMSPID (exCtx (Some ''CiplaOrg'') exStore) \<noteq> Some (CurrentOwner exDrug)
   \<and> fst (ShipDrug (exCtx (Some ''CiplaOrg'') exStore) ''DRUG-1'' ''Medlife'') = None
   \<and> fst (ShipDrug (exCtx (Some ''Ci'') exStore) ''DRUG-1'' ''Medlife'') = Some Panic
   \<and> fst (ShipDrug (exCtx (Some ''CiplaMSP'') exStore) ''DRUG-1'' [CHR 0xFF]) = None
   \<and> map_option CurrentOwner
        (readDrug (worldState (snd (ShipDrug (exCtx (Some ''CiplaMSP'') exStore) ''DRUG-1''
           [CHR 0xFF]))) ''DRUG-1'') = Some [CHR 0xEF, CHR 0xBF, CHR 0xBD]"
  by (simp add: ex_defs op_defs Let_def readDrug_def toValidUTF8Drug_def utf8_simps
      toValidUTF8.simps leadByte_def inRange_def replacementChar_def)

subsection \<open>RegisterDrug: creation happens once\<close>

text \<open>
  Claim C2. The manufacturer is the caller with MSP ID \<open>CiplaMSP\<close>, and the
  custodian name it stands for is \<open>Cipla\<close>. With the store answering reads: a
  \<^verbatim>\<open>RegisterDrug\<close> by the manufacturer at an identifier that holds nothing
  succeeds (when the write goes through) and stores a record with status
  \<open>InProduction\<close>, owner \<open>Cipla\<close>, \<open>IsRecalled\<close> false, no inspection notes,
  the arguments as the codec keeps them, and a history of exactly one entry
  \<open>time|Created|Cipla|-|Batch: \<close> followed by the batch number of the record;
  at an identifier that holds something it fails with the already-exists error,
  the check coming before any write; a caller that is not the manufacturer fails
  with the unauthorized error; both failures leave the context as it was. And
  once a \<^verbatim>\<open>RegisterDrug\<close> at an identifier has succeeded, after any sequence of
  transactions every later \<^verbatim>\<open>RegisterDrug\<close> by the manufacturer at that
  identifier fails with the already-exists error.
\<close>

theorem RegisterDrug_create_once:
  assumes "\<not> getStateFails c"
  shows "(clientMSPID c = Some ''CiplaMSP'' \<and> worldState c drugID = None \<and> \<not> putStateFails c \<longrightarrow>
           RegisterDrug c drugID name batchNumber mfgDate expiryDate composition =
             (None, c\<lparr>worldState := (worldState c)(drugID \<mapsto> Marshalled
                \<lparr>DrugID = toValidUTF8 drugID, Name = toValidUTF8 name, Manufacturer = ''Cipla'',
                 BatchNumber = toValidUTF8 batchNumber, MfgDate = toValidUTF8 mfgDate,
                 ExpiryDate = toValidUTF8 expiryDate, Composition = toValidUTF8 composition,
                 CurrentOwner = ''Cipla'', Status = ''InProduction'',
                 History = [toValidUTF8 (clock c 0) @ ''|Created|Cipla|-|Batch: '' @
                            toValidUTF8 batchNumber],
                 IsRecalled = False, InspectionNotes = []\<rparr>)\<rparr>))
       \<and> (clientMSPID c = Some ''CiplaMSP'' \<and> worldState c drugID \<noteq> None \<longrightarrow>
           RegisterDrug c drugID name batchNumber mfgDate expiryDate composition =
             (Some (AlreadyExists drugID), c))
       \<and> (clientMSPID c \<noteq> Some ''CiplaMSP'' \<longrightarrow>
           RegisterDrug c drugID name batchNumber mfgDate expiryDate composition =
             (Some Unauthorized, c))
       \<and> (fst (RegisterDrug c drugID name batchNumber mfgDate expiryDate composition) = None \<longrightarrow>
           (\<forall>rs (c'::ctx) name' batchNumber' mfgDate' expiryDate' composition'.
              clientMSPID c' = Some ''CiplaMSP'' \<and> \<not> getStateFails c' \<longrightarrow>
              fst (invoke (c', Register drugID name' batchNumber' mfgDate' expiryDate' composition')
                    (run rs (worldState
                       (snd (RegisterDrug c drugID name batchNumber mfgDate expiryDate composition)))))
                = Some (AlreadyExists drugID)))"
proof (intro conjI impI allI)
  assume "clientMSPID c = Some ''CiplaMSP'' \<and> worldState c drugID = None \<and> \<not> putStateFails c"
  with assms show "RegisterDrug c drugID name batchNumber mfgDate expiryDate composition =
             (None, c\<lparr>worldState := (worldState c)(drugID \<mapsto> Marshalled
                \<lparr>DrugID = toValidUTF8 drugID, Name = toValidUTF8 name, Manufacturer = ''Cipla'',
                 BatchNumber = toValidUTF8 batchNumber, MfgDate = toValidUTF8 mfgDate,
                 ExpiryDate = toValidUTF8 expiryDate, Composition = toValidUTF8 composition,
                 CurrentOwner = ''Cipla'', Status = ''InProduction'',
                 History = [toValidUTF8 (clock c 0) @ ''|Created|Cipla|-|Batch: '' @
                            toValidUTF8 batchNumber],
                 IsRecalled = False, InspectionNotes = []\<rparr>)\<rparr>)"
    by (simp add: op_defs toValidUTF8Drug_def utf8_simps)
next
  assume "clientMSPID c = Some ''CiplaMSP'' \<and> worldState c drugID \<noteq> None"
  with assms show "RegisterDrug c drugID name batchNumber mfgDate expiryDate composition =
             (Some (AlreadyExists drugID), c)"
    by (auto simp: op_defs)
next
  assume "clientMSPID c \<noteq> Some ''CiplaMSP''"
  then show "RegisterDrug c drugID name batchNumber mfgDate expiryDate composition =
             (Some Unauthorized, c)"
    by (auto simp: op_defs split: option.splits)
next
  fix rs and c' :: ctx and name' batchNumber' mfgDate' expiryDate' composition'
  let ?s = "worldState (snd (RegisterDrug c drugID name batchNumber mfgDate expiryDate composition))"
  assume ok: "fst (RegisterDrug c drugID name batchNumber mfgDate expiryDate composition) = None"
    and c': "clientMSPID c' = Some ''CiplaMSP'' \<and> \<not> getStateFails c'"
  from ok have "?s drugID \<noteq> None"
    by (auto simp: op_defs split: option.splits if_splits)
  then have "run rs ?s drugID \<noteq> None" by (rule run_present)
  with c' show "fst (invoke (c', Register drugID name' batchNumber' mfgDate' expiryDate' composition')
      (run rs ?s)) = Some (AlreadyExists drugID)"
    by (auto simp: invoke_def op_defs)
qed

text \<open>
  The scenario: Cipla registers \<open>DRUG-1\<close> in an empty world state; registering it
  again fails, also after a shipment; Medlife may not register; and a batch
  number that is the one byte FF is stored, in the field and in the history
  entry alike, as EF BF BD.
\<close>

theorem RegisterDrug_create_once_witness:
  "\<not> getStateFails (exCtx (Some ''CiplaMSP'') Map.empty)
   \<and> clientMSPID (exCtx (Some ''CiplaMSP'') Map.empty) = Some ''CiplaMSP''
   \<and> worldState (exCtx (Some ''CiplaMSP'') Map.empty) ''DRUG-1'' = None
   \<and> \<not> putStateFails (exCtx (Some ''CiplaMSP'') Map.empty)
   \<and> RegisterDrug (exCtx (Some ''CiplaMSP'') Map.empty) ''DRUG-1'' ''ParacetamolX'' ''B100''
         ''2024-01-01'' ''2026-01-01'' ''Paracetamol 500mg'' =
       (None, exCtx (Some ''CiplaMSP'') exStore)
   \<and> fst (invoke (exCtx (Some ''CiplaMSP'') Map.empty,
               Register ''DRUG-1'' ''Other'' ''B200'' ''2024-02-02'' ''2026-02-02'' ''X'')
         (run [(exCtx (Some ''CiplaMSP'') Map.empty, Ship ''DRUG-1'' ''Medlife'')] exStore))
       = Some (AlreadyExists ''DRUG-1'')
   \<and> RegisterDrug (exCtx (Some ''CiplaMSP'') exStore) ''DRUG-1'' ''Other'' ''B200''
         ''2024-02-02'' ''2026-02-02'' ''X'' =
       (Some (AlreadyExists ''DRUG-1''), exCtx (Some ''CiplaMSP'') exStore)
   \<and> RegisterDrug (exCtx (Some ''MedlifeMSP'') Map.empty) ''DRUG-1'' ''ParacetamolX'' ''B100''
         ''2024-01-01'' ''2026-01-01'' ''Paracetamol 500mg'' =
       (Some Unauthorized, exCtx (Some ''MedlifeMSP'') Map.empty)
   \<and> worldState (snd (RegisterDrug (exCtx (Some ''CiplaMSP'') Map.empty) ''DRUG-2'' [CHR 0xFF]
         [CHR 0xFF] ''2024-01-01'' ''2026-01-01'' ''Y'')) ''DRUG-2'' =
       Some (Marshalled
         \<lparr>DrugID = ''DRUG-2'', Name = [CHR 0xEF, CHR 0xBF, CHR 0xBD], Manufacturer = ''Cipla'',
          BatchNumber = [CHR 0xEF, CHR 0xBF, CHR 0xBD], MfgDate = ''2024-01-01'',
          ExpiryDate = ''2026-01-01'', Composition = ''Y'', CurrentOwner = ''Cipla'',
          Status = ''InProduction'',
          History = [''2024-01-01 10:00:00|Created|Cipla|-|Batch: '' @ [CHR 0xEF, CHR 0xBF, CHR 0xBD]],
          IsRecalled = False, InspectionNotes = []\<rparr>)"
proof -
  let ?c = "exCtx (Some ''CiplaMSP'') Map.empty"
  have reg: "RegisterDrug ?c ''DRUG-1'' ''ParacetamolX'' ''B100''
         ''2024-01-01'' ''2026-01-01'' ''Paracetamol 500mg'' = (None, exCtx (Some ''CiplaMSP'') exStore)"
    using RegisterDrug_create_once [of ?c "''DRUG-1''" "''ParacetamolX''" "''B100''"
         "''2024-01-01''" "''2026-01-01''" "''Paracetamol 500mg''"]
    by (simp add: ex_defs utf8_simps)
  have again: "fst (invoke (?c,
               Register ''DRUG-1'' ''Other'' ''B200'' ''2024-02-02'' ''2026-02-02'' ''X'')
         (run [(?c, Ship ''DRUG-1'' ''Medlife'')] exStore))
       = Some (AlreadyExists ''DRUG-1'')"
  proof -
    have ws: "worldState (exCtx (Some ''CiplaMSP'') exStore) = exStore"
      by (simp add: exCtx_def)
    have "\<not> getStateFails ?c" by (simp add: exCtx_def)
    from RegisterDrug_create_once [OF this, of "''DRUG-1''" "''ParacetamolX''" "''B100''"
         "''2024-01-01''" "''2026-01-01''" "''Paracetamol 500mg''"]
    have "\<forall>rs (c'::ctx) name' batchNumber' mfgDate' expiryDate' composition'.
              clientMSPID c' = Some ''CiplaMSP'' \<and> \<not> getStateFails c' \<longrightarrow>
              fst (invoke (c', Register ''DRUG-1'' name' batchNumber' mfgDate' expiryDate' composition')
                    (run rs exStore)) = Some (AlreadyExists ''DRUG-1'')"
      by (simp add: reg ws)
    then have "clientMSPID ?c = Some ''CiplaMSP'' \<and> \<not> getStateFails ?c \<longrightarrow>
              fst (invoke (?c, Register ''DRUG-1'' ''Other'' ''B200'' ''2024-02-02'' ''2026-02-02'' ''X'')
                    (run [(?c, Ship ''DRUG-1'' ''Medlife'')] exStore)) = Some (AlreadyExists ''DRUG-1'')"
      by blast
    then show ?thesis by (simp add: exCtx_def)
  qed
  have exists: "RegisterDrug (exCtx (Some ''CiplaMSP'') exStore) ''DRUG-1'' ''Other'' ''B200''
         ''2024-02-02'' ''2026-02-02'' ''X'' =
       (Some (AlreadyExists ''DRUG-1''), exCtx (Some ''CiplaMSP'') exStore)"
    using RegisterDrug_create_once [of "exCtx (Some ''CiplaMSP'') exStore" "''DRUG-1''"
         "''Other''" "''B200''" "''2024-02-02''" "''2026-02-02''" "''X''"]
    by (simp add: exCtx_def exStore_def)
  have unauth: "RegisterDrug (exCtx (Some ''MedlifeMSP'') Map.empty) ''DRUG-1'' ''ParacetamolX'' ''B100''
         ''2024-01-01'' ''2026-01-01'' ''Paracetamol 500mg'' =
       (Some Unauthorized, exCtx (Some ''MedlifeMSP'') Map.empty)"
    using RegisterDrug_create_once [of "exCtx (Some ''MedlifeMSP'') Map.empty" "''DRUG-1''"
         "''ParacetamolX''" "''B100''" "''2024-01-01''" "''2026-01-01''" "''Paracetamol 500mg''"]
    by (simp add: exCtx_def)
  have coerced: "worldState (snd (RegisterDrug ?c ''DRUG-2'' [CHR 0xFF]
         [CHR 0xFF] ''2024-01-01'' ''2026-01-01'' ''Y'')) ''DRUG-2'' =
       Some (Marshalled
         \<lparr>DrugID = ''DRUG-2'', Name = [CHR 0xEF, CHR 0xBF, CHR 0xBD], Manufacturer = ''Cipla'',
          BatchNumber = [CHR 0xEF, CHR 0xBF, CHR 0xBD], MfgDate = ''2024-01-01'',
          ExpiryDate = ''2026-01-01'', Composition = ''Y'', CurrentOwner = ''Cipla'',
          Status = ''InProduction'',
          History = [''2024-01-01 10:00:00|Created|Cipla|-|Batch: '' @ [CHR 0xEF, CHR 0xBF, CHR 0xBD]],
          IsRecalled = False, InspectionNotes = []\<rparr>)"
    using RegisterDrug_create_once [of ?c "''DRUG-2''" "[CHR 0xFF]" "[CHR 0xFF]"
         "''2024-01-01''" "''2026-01-01''" "''Y''"]
    by (simp add: exCtx_def exClock_def utf8_simps toValidUTF8.simps leadByte_def
        replacementChar_def)
  from reg again exists unauth coerced show ?thesis by (simp add: exCtx_def)
qed

subsection \<open>RecallDrug: the regulator only\<close>

text \<open>
  Claim C3. The regulator is the caller with MSP ID \<open>CDSCOMSP\<close>. With the store
  answering, on every stored record that decodes, whatever its owner and status
  (a recalled one included), \<^verbatim>\<open>RecallDrug\<close> succeeds if and only if the caller
  is the regulator; it then writes the record with \<open>IsRecalled\<close> true, status
  \<open>Recalled\<close>, exactly one note \<open>time: reason\<close> appended to the inspection
  notes and exactly one entry \<open>time|Recalled|CDSCO|-|Reason: reason\<close> appended to
  the history (the reason as the codec keeps it), every other field as it was.
  Any other caller fails with the unauthorized error, and the regulator fails
  with the not-found error where no record is stored.
\<close>

theorem RecallDrug_regulator_only:
  assumes "\<not> getStateFails c" and "\<not> putStateFails c"
  shows "(readDrug (worldState c) drugID = Some d \<longrightarrow>
           (fst (RecallDrug c drugID reason) = None \<longleftrightarrow> clientMSPID c = Some ''CDSCOMSP'')
         \<and> (clientMSPID c = Some ''CDSCOMSP'' \<longrightarrow>
              RecallDrug c drugID reason =
                (None, c\<lparr>event := Some (''DrugRecalled'', drugID),
                   worldState := (worldState c)(drugID \<mapsto> Marshalled
                     (d\<lparr>IsRecalled := True, Status := ''Recalled'',
                        InspectionNotes := InspectionNotes d @
                          [toValidUTF8 (clock c 0) @ '': '' @ toValidUTF8 reason],
                        History := History d @
                          [toValidUTF8 (clock c 1) @ ''|Recalled|CDSCO|-|Reason: '' @
                           toValidUTF8 reason]\<rparr>))\<rparr>)))
       \<and> (clientMSPID c \<noteq> Some ''CDSCOMSP'' \<longrightarrow>
            RecallDrug c drugID reason = (Some Unauthorized, c))
       \<and> (clientMSPID c = Some ''CDSCOMSP'' \<and> worldState c drugID = None \<longrightarrow>
            RecallDrug c drugID reason = (Some (NotFound drugID), c))"
proof (intro conjI impI)
  assume "clientMSPID c \<noteq> Some ''CDSCOMSP''"
  then show "RecallDrug c drugID reason = (Some Unauthorized, c)"
    by (auto simp: op_defs split: option.splits)
next
  assume "clientMSPID c = Some ''CDSCOMSP'' \<and> worldState c drugID = None"
  with assms show "RecallDrug c drugID reason = (Some (NotFound drugID), c)"
    by (simp add: op_defs)
next
  assume r: "readDrug (worldState c) drugID = Some d"
  with assms show iff: "fst (RecallDrug c drugID reason) = None \<longleftrightarrow> clientMSPID c = Some ''CDSCOMSP''"
    by (auto simp: readDrug_Some op_defs Let_def split: option.splits if_splits)
  {
    assume "clientMSPID c = Some ''CDSCOMSP''"
    with iff have ok: "fst (RecallDrug c drugID reason) = None" by simp
    from RecallDrug_success [OF ok r] ok
    show "RecallDrug c drugID reason =
                (None, c\<lparr>event := Some (''DrugRecalled'', drugID),
                   worldState := (worldState c)(drugID \<mapsto> Marshalled
                     (d\<lparr>IsRecalled := True, Status := ''Recalled'',
                        InspectionNotes := InspectionNotes d @
                          [toValidUTF8 (clock c 0) @ '': '' @ toValidUTF8 reason],
                        History := History d @
                          [toValidUTF8 (clock c 1) @ ''|Recalled|CDSCO|-|Reason: '' @
                           toValidUTF8 reason]\<rparr>))\<rparr>)"
      by (simp add: prod_eq_iff)
  }
qed

text \<open>
  The scenario: the regulator recalls \<open>DRUG-1\<close>, and recalls it again; Cipla may
  not; an unknown identifier is not found.
\<close>

theorem RecallDrug_regulator_only_witness:
  "\<not> getStateFails (exCtx (Some ''CDSCOMSP'') exStore)
   \<and> \<not> putStateFails (exCtx (Some ''CDSCOMSP'') exStore)
   \<and> readDrug (worldState (exCtx (Some ''CDSCOMSP'') exStore)) ''DRUG-1'' = Some exDrug
   \<and> clientMSPID (exCtx (Some ''CDSCOMSP'') exStore) = Some ''CDSCOMSP''
   \<and> RecallDrug (exCtx (Some ''CDSCOMSP'') exStore) ''DRUG-1'' ''contamination'' =
       (None, (exCtx (Some ''CDSCOMSP'') exStore)\<lparr>event := Some (''DrugRecalled'', ''DRUG-1''),
          worldState := exStore(''DRUG-1'' \<mapsto> Marshalled exRecalled)\<rparr>)
   \<and> RecallDrug (exCtx (Some ''CiplaMSP'') exStore) ''DRUG-1'' ''contamination'' =
       (Some Unauthorized, exCtx (Some ''CiplaMSP'') exStore)
   \<and> RecallDrug (exCtx (Some ''CDSCOMSP'') exStore) ''DRUG-404'' ''contamination'' =
       (Some (NotFound ''DRUG-404''), exCtx (Some ''CDSCOMSP'') exStore)
   \<and> fst (RecallDrug (exCtx (Some ''CDSCOMSP'') [''DRUG-1'' \<mapsto> Marshalled exRecalled])
        ''DRUG-1'' ''again'') = None"
proof -
  have r: "readDrug (worldState (exCtx (Some ''CDSCOMSP'') exStore)) ''DRUG-1'' = Some exDrug"
    "readDrug (worldState (exCtx (Some ''CDSCOMSP'') [''DRUG-1'' \<mapsto> Marshalled exRecalled]))
       ''DRUG-1'' = Some exRecalled"
    by (simp_all add: exCtx_def ex_read)
  from r
    RecallDrug_regulator_only [of "exCtx (Some ''CDSCOMSP'') exStore" "''DRUG-1''" exDrug
      "''contamination''"]
    RecallDrug_regulator_only [of "exCtx (Some ''CiplaMSP'') exStore" "''DRUG-1''" exDrug
      "''contamination''"]
    RecallDrug_regulator_only [of "exCtx (Some ''CDSCOMSP'') exStore" "''DRUG-404''" exDrug
      "''contamination''"]
    RecallDrug_regulator_only [of "exCtx (Some ''CDSCOMSP'') [''DRUG-1'' \<mapsto> Marshalled exRecalled]"
      "''DRUG-1''" exRecalled "''again''"]
  show ?thesis
    by (simp add: exCtx_def exStore_def exDrug_def exClock_def exRecalled_def utf8_simps)
qed

subsection \<open>Sequences of transactions\<close>

text \<open>
  Claim C4. \<open>IsRecalled\<close> is monotonic: where the stored record at an identifier
  has \<open>IsRecalled\<close> true, after any sequence of transactions (register, ship,
  recall, track, by any callers, failing or not) the identifier still holds a
  record that decodes, and its \<open>IsRecalled\<close> is true.
\<close>

theorem recalled_monotonic:
  assumes "s drugID = Some (Marshalled d)" and "IsRecalled d"
  shows "\<exists>d'. run rs s drugID = Some (Marshalled d') \<and> IsRecalled d'"
proof -
  from assms have "readDrug s drugID = Some (toValidUTF8Drug d)"
    and "IsRecalled (toValidUTF8Drug d)"
    by (simp_all add: readDrug_def toValidUTF8Drug_def)
  with run_frame [of s drugID "toValidUTF8Drug d" rs]
  obtain d1 where "readDrug (run rs s) drugID = Some d1" and "IsRecalled d1" by blast
  then obtain d0 where "run rs s drugID = Some (Marshalled d0)" and "IsRecalled (toValidUTF8Drug d0)"
    by (auto simp: readDrug_Some)
  then show ?thesis by (auto simp: toValidUTF8Drug_def)
qed

text \<open>
  The recalled \<open>DRUG-1\<close> through a shipment, a registration, a recall and a read.
\<close>

theorem recalled_monotonic_witness:
  "[''DRUG-1'' \<mapsto> Marshalled exRecalled] ''DRUG-1'' = Some (Marshalled exRecalled)
   \<and> IsRecalled exRecalled
   \<and> (\<exists>d'. run exRequests [''DRUG-1'' \<mapsto> Marshalled exRecalled] ''DRUG-1'' = Some (Marshalled d')
          \<and> IsRecalled d')"
  using recalled_monotonic [of "[''DRUG-1'' \<mapsto> Marshalled exRecalled]" "''DRUG-1''" exRecalled
      exRequests]
  by (simp add: exRecalled_def)

text \<open>
  Claim C9. The fields set at creation (\<open>DrugID\<close>, \<open>Name\<close>, \<open>Manufacturer\<close>,
  \<open>BatchNumber\<close>, \<open>MfgDate\<close>, \<open>ExpiryDate\<close>, \<open>Composition\<close>) never change:
  after any sequence of transactions the record read at an identifier has the
  values it had before.
\<close>

theorem creation_fields_immutable:
  assumes "readDrug s drugID = Some d"
  shows "\<exists>d'. readDrug (run rs s) drugID = Some d'
     \<and> DrugID d' = DrugID d \<and> Name d' = Name d \<and> Manufacturer d' = Manufacturer d
     \<and> BatchNumber d' = BatchNumber d \<and> MfgDate d' = MfgDate d
     \<and> ExpiryDate d' = ExpiryDate d \<and> Composition d' = Composition d"
  using run_frame [of s drugID d rs] assms by blast

text \<open>
  \<open>DRUG-1\<close> keeps its creation-time fields through the same requests.
\<close>

theorem creation_fields_immutable_witness:
  "readDrug exStore ''DRUG-1'' = Some exDrug
   \<and> (\<exists>d'. readDrug (run exRequests exStore) ''DRUG-1'' = Some d'
     \<and> DrugID d' = ''DRUG-1'' \<and> Name d' = ''ParacetamolX'' \<and> Manufacturer d' = ''Cipla''
     \<and> BatchNumber d' = ''B100'' \<and> MfgDate d' = ''2024-01-01''
     \<and> ExpiryDate d' = ''2026-01-01'' \<and> Composition d' = ''Paracetamol 500mg'')"
  using creation_fields_immutable [of exStore "''DRUG-1''" exDrug exRequests] ex_read(1)
  by (simp add: exDrug_def)

text \<open>
  Claim C6. The history is append-only. For a stored record that decodes: after
  any sequence of transactions the old history is a prefix of the new one; one
  transaction leaves the history as it was or appends exactly one entry; and a
  successful \<^verbatim>\<open>ShipDrug\<close> or \<^verbatim>\<open>RecallDrug\<close> on the identifier changes the
  world state by one write at that identifier, whose record carries the old
  history with exactly one entry appended.
\<close>

theorem history_append_only:
  assumes "readDrug s drugID = Some d"
  shows "(\<exists>d'. readDrug (run rs s) drugID = Some d' \<and> prefix (History d) (History d'))
     \<and> (\<exists>d'. readDrug (commit r s) drugID = Some d'
            \<and> (History d' = History d \<or> (\<exists>e. History d' = History d @ [e])))
     \<and> (fst (invoke r s) = None \<and> (\<exists>a. snd r = Ship drugID a \<or> snd r = Recall drugID a) \<longrightarrow>
          (\<exists>d' e. commit r s = s(drugID \<mapsto> Marshalled d')
             \<and> readDrug (commit r s) drugID = Some d' \<and> History d' = History d @ [e]))"
proof (intro conjI impI)
  from run_frame [of s drugID d rs] assms
  show "\<exists>d'. readDrug (run rs s) drugID = Some d' \<and> prefix (History d) (History d')"
    by blast
next
  from commit_frame [of s drugID d r] assms
  show "\<exists>d'. readDrug (commit r s) drugID = Some d'
            \<and> (History d' = History d \<or> (\<exists>e. History d' = History d @ [e]))"
    by blast
next
  let ?c = "(fst r)\<lparr>worldState := s, event := None\<rparr>"
  assume a: "fst (invoke r s) = None \<and> (\<exists>a. snd r = Ship drugID a \<or> snd r = Recall drugID a)"
  from assms have w: "readDrug (worldState ?c) drugID = Some d" by simp
  from a obtain a' where "snd r = Ship drugID a' \<or> snd r = Recall drugID a'" by blast
  then show "\<exists>d' e. commit r s = s(drugID \<mapsto> Marshalled d')
             \<and> readDrug (commit r s) drugID = Some d' \<and> History d' = History d @ [e]"
  proof
    assume r: "snd r = Ship drugID a'"
    let ?d = "d\<lparr>CurrentOwner := toValidUTF8 a', Status := ''InTransit'',
         History := History d @
           [toValidUTF8 (clock ?c 0) @ ''|Shipped|'' @ CurrentOwner d @ ''|'' @
            toValidUTF8 a' @ ''|'']\<rparr>"
    from r a have ok: "fst (ShipDrug ?c drugID a') = None" by (simp add: invoke_def)
    from ShipDrug_success [OF ok w] r
    have c: "commit r s = s(drugID \<mapsto> Marshalled ?d)"
      by (simp add: commit_def invoke_def)
    from ShipDrug_success_read [OF ok w] r
    have "readDrug (commit r s) drugID = Some ?d"
      by (simp add: commit_def invoke_def)
    with c show ?thesis by force
  next
    assume r: "snd r = Recall drugID a'"
    let ?d = "d\<lparr>IsRecalled := True, Status := ''Recalled'',
         InspectionNotes := InspectionNotes d @
           [toValidUTF8 (clock ?c 0) @ '': '' @ toValidUTF8 a'],
         History := History d @
           [toValidUTF8 (clock ?c 1) @ ''|Recalled|CDSCO|-|Reason: '' @ toValidUTF8 a']\<rparr>"
    from r a have ok: "fst (RecallDrug ?c drugID a') = None" by (simp add: invoke_def)
    from RecallDrug_success [OF ok w] r
    have c: "commit r s = s(drugID \<mapsto> Marshalled ?d)"
      by (simp add: commit_def invoke_def)
    from RecallDrug_success_read [OF ok w] r
    have "readDrug (commit r s) drugID = Some ?d"
      by (simp add: commit_def invoke_def)
    with c show ?thesis by force
  qed
qed

text \<open>
  The history of \<open>DRUG-1\<close> through the requests, and through one shipment.
\<close>

theorem history_append_only_witness:
  "readDrug exStore ''DRUG-1'' = Some exDrug
   \<and> (\<exists>d'. readDrug (run exRequests exStore) ''DRUG-1'' = Some d'
          \<and> prefix (History exDrug) (History d'))
   \<and> fst (invoke exShip exStore) = None
   \<and> snd exShip = Ship ''DRUG-1'' ''Medlife''
   \<and> (\<exists>d' e. commit exShip exStore = exStore(''DRUG-1'' \<mapsto> Marshalled d')
          \<and> readDrug (commit exShip exStore) ''DRUG-1'' = Some d'
          \<and> History d' = History exDrug @ [e])"
proof -
  have s: "readDrug exStore ''DRUG-1'' = Some exDrug" by (rule ex_read)
  have ok: "fst (invoke exShip exStore) = None"
    by (simp add: exShip_def invoke_def exCtx_def exStore_def op_defs Let_def)
      (simp add: toValidUTF8Drug_def exDrug_def utf8_simps)
  have r: "snd exShip = Ship ''DRUG-1'' ''Medlife''" by (simp add: exShip_def)
  from history_append_only [of exStore "''DRUG-1''" exDrug exRequests exShip] s ok r
  show ?thesis by blast
qed

subsection \<open>Shipping a recalled batch\<close>

text \<open>
  Claim C5, as the code has it. The status \<open>Recalled\<close> is not absorbing:
  \<^verbatim>\<open>ShipDrug\<close> has no check of the status, so a shipment by the current owner
  of a recalled batch succeeds and writes status \<open>InTransit\<close> and, as owner, the
  destination as the codec keeps it. That is the only way out of \<open>Recalled\<close>:
  after one transaction on a record with status \<open>Recalled\<close> and \<open>IsRecalled\<close>
  true, \<open>IsRecalled\<close> is still true and the status is still \<open>Recalled\<close>, unless
  the transaction was a successful \<^verbatim>\<open>ShipDrug\<close> at that identifier, after which
  it is \<open>InTransit\<close>.
\<close>

theorem recalled_status_after_commit:
  assumes "readDrug s drugID = Some d" and "Status d = ''Recalled''" and "IsRecalled d"
  shows "(\<exists>d'. readDrug (commit r s) drugID = Some d' \<and> IsRecalled d' \<and>
            (Status d' = ''Recalled'' \<or>
             Status d' = ''InTransit'' \<and> fst (invoke r s) = None
               \<and> (\<exists>to. snd r = Ship drugID to \<and> CurrentOwner d' = toValidUTF8 to)))
       \<and> (\<not> getStateFails c \<and> \<not> putStateFails c \<and> clientMSPID c = Some m \<and> 3 \<le> length m
            \<and> CurrentOwner d = take (length m - 3) m \<longrightarrow>
           fst (invoke (c, Ship drugID to) s) = None \<and>
           readDrug (commit (c, Ship drugID to) s) drugID = Some
             (d\<lparr>CurrentOwner := toValidUTF8 to, Status := ''InTransit'',
                History := History d @
                  [toValidUTF8 (clock c 0) @ ''|Shipped|'' @ CurrentOwner d @ ''|'' @
                   toValidUTF8 to @ ''|'']\<rparr>))"
proof (rule conjI)
  from commit_cases [of s drugID d r] assms(1) consider
      "readDrug (commit r s) drugID = Some d"
    | to t where "fst (invoke r s) = None" "snd r = Ship drugID to"
        "readDrug (commit r s) drugID = Some
          (d\<lparr>CurrentOwner := toValidUTF8 to, Status := ''InTransit'', History := History d @ [t]\<rparr>)"
    | n h where "readDrug (commit r s) drugID = Some
        (d\<lparr>IsRecalled := True, Status := ''Recalled'',
           InspectionNotes := InspectionNotes d @ [n], History := History d @ [h]\<rparr>)"
    by blast
  then show "\<exists>d'. readDrug (commit r s) drugID = Some d' \<and> IsRecalled d' \<and>
            (Status d' = ''Recalled'' \<or>
             Status d' = ''InTransit'' \<and> fst (invoke r s) = None
               \<and> (\<exists>to. snd r = Ship drugID to \<and> CurrentOwner d' = toValidUTF8 to))"
    using assms(2,3) by cases simp_all
next
  show "\<not> getStateFails c \<and> \<not> putStateFails c \<and> clientMSPID c = Some m \<and> 3 \<le> length m
            \<and> CurrentOwner d = take (length m - 3) m \<longrightarrow>
           fst (invoke (c, Ship drugID to) s) = None \<and>
           readDrug (commit (c, Ship drugID to) s) drugID = Some
             (d\<lparr>CurrentOwner := toValidUTF8 to, Status := ''InTransit'',
                History := History d @
                  [toValidUTF8 (clock c 0) @ ''|Shipped|'' @ CurrentOwner d @ ''|'' @
                   toValidUTF8 to @ ''|'']\<rparr>)"
  proof
    let ?c = "c\<lparr>worldState := s, event := None\<rparr>"
    assume a: "\<not> getStateFails c \<and> \<not> putStateFails c \<and> clientMSPID c = Some m \<and> 3 \<le> length m
            \<and> CurrentOwner d = take (length m - 3) m"
    from assms(1) have w: "readDrug (worldState ?c) drugID = Some d" by simp
    from a assms(1) have ok: "fst (ShipDrug ?c drugID to) = None"
      by (auto simp: readDrug_Some op_defs Let_def split: option.splits if_splits)
    from ShipDrug_success_read [OF ok w] ok
    show "fst (invoke (c, Ship drugID to) s) = None \<and>
           readDrug (commit (c, Ship drugID to) s) drugID = Some
             (d\<lparr>CurrentOwner := toValidUTF8 to, Status := ''InTransit'',
                History := History d @
                  [toValidUTF8 (clock c 0) @ ''|Shipped|'' @ CurrentOwner d @ ''|'' @
                   toValidUTF8 to @ ''|'']\<rparr>)"
      by (simp add: commit_def invoke_def)
  qed
qed

text \<open>
  Cipla ships the recalled \<open>DRUG-1\<close>; a second recall keeps the status.
\<close>

theorem recalled_status_after_commit_witness:
  "readDrug [''DRUG-1'' \<mapsto> Marshalled exRecalled] ''DRUG-1'' = Some exRecalled
   \<and> Status exRecalled = ''Recalled'' \<and> IsRecalled exRecalled
   \<and> \<not> getStateFails (exCtx (Some ''CiplaMSP'') Map.empty)
   \<and> \<not> putStateFails (exCtx (Some ''CiplaMSP'') Map.empty)
   \<and> clientMSPID (exCtx (Some ''CiplaMSP'') Map.empty) = Some ''CiplaMSP''
   \<and> 3 \<le> length ''CiplaMSP''
   \<and> CurrentOwner exRecalled = take (length ''CiplaMSP'' - 3) ''CiplaMSP''
   \<and> fst (invoke exShip [''DRUG-1'' \<mapsto> Marshalled exRecalled]) = None
   \<and> readDrug (commit exShip [''DRUG-1'' \<mapsto> Marshalled exRecalled]) ''DRUG-1'' = Some
        (exRecalled\<lparr>CurrentOwner := ''Medlife'', Status := ''InTransit'',
           History := History exRecalled @ [''2024-01-01 10:00:00|Shipped|Cipla|Medlife|'']\<rparr>)
   \<and> (\<exists>d'. readDrug (commit (exCtx (Some ''CDSCOMSP'') Map.empty, Recall ''DRUG-1'' ''again'')
              [''DRUG-1'' \<mapsto> Marshalled exRecalled]) ''DRUG-1'' = Some d'
          \<and> IsRecalled d' \<and> Status d' = ''Recalled'')"
proof -
  let ?s = "[''DRUG-1'' \<mapsto> Marshalled exRecalled]"
  let ?c = "exCtx (Some ''CiplaMSP'') Map.empty"
  let ?r = "(exCtx (Some ''CDSCOMSP'') Map.empty, Recall ''DRUG-1'' ''again'')"
  have h1: "readDrug ?s ''DRUG-1'' = Some exRecalled" by (rule ex_read)
  have h2: "Status exRecalled = ''Recalled''" "IsRecalled exRecalled"
    by (simp_all add: exRecalled_def)
  note h = h1 h2
  have p: "\<not> getStateFails ?c \<and> \<not> putStateFails ?c \<and> clientMSPID ?c = Some ''CiplaMSP''
    \<and> 3 \<le> length ''CiplaMSP''
    \<and> CurrentOwner exRecalled = take (length ''CiplaMSP'' - 3) ''CiplaMSP''"
    by (simp add: ex_defs)
  from recalled_status_after_commit [of ?s "''DRUG-1''" exRecalled ?r ?c "''CiplaMSP''" "''Medlife''"]
    h p
  have a: "fst (invoke exShip ?s) = None"
    and b: "readDrug (commit exShip ?s) ''DRUG-1'' = Some
        (exRecalled\<lparr>CurrentOwner := ''Medlife'', Status := ''InTransit'',
           History := History exRecalled @ [''2024-01-01 10:00:00|Shipped|Cipla|Medlife|'']\<rparr>)"
    and c: "\<exists>d'. readDrug (commit ?r ?s) ''DRUG-1'' = Some d' \<and> IsRecalled d' \<and>
            (Status d' = ''Recalled'' \<or>
             Status d' = ''InTransit'' \<and> fst (invoke ?r ?s) = None
               \<and> (\<exists>to. snd ?r = Ship ''DRUG-1'' to \<and> CurrentOwner d' = toValidUTF8 to))"
    by (simp_all add: exShip_def exCtx_def exClock_def utf8_simps)
  from c have "\<exists>d'. readDrug (commit ?r ?s) ''DRUG-1'' = Some d' \<and> IsRecalled d'
      \<and> Status d' = ''Recalled''"
    by auto
  with h p a b show ?thesis by blast
qed

text \<open>
  Claim C5 as stated fails: the shipment of the recalled \<open>DRUG-1\<close> by its owner
  returns no error and stores status \<open>InTransit\<close> and owner \<open>Medlife\<close>.
\<close>

theorem ShipDrug_recalled_counterexample:
  "Status exRecalled = ''Recalled'' \<and> IsRecalled exRecalled
   \<and> ShipDrug (exCtx (Some ''CiplaMSP'') [''DRUG-1'' \<mapsto> Marshalled exRecalled])
        ''DRUG-1'' ''Medlife'' =
       (None, (exCtx (Some ''CiplaMSP'') [''DRUG-1'' \<mapsto> Marshalled exRecalled])
          \<lparr>event := Some (''DrugShipped'', ''DRUG-1''),
           worldState := [''DRUG-1'' \<mapsto> Marshalled
             (exRecalled\<lparr>CurrentOwner := ''Medlife'', Status := ''InTransit'',
                History := History exRecalled @
                  [''2024-01-01 10:00:00|Shipped|Cipla|Medlife|'']\<rparr>)]\<rparr>)"
  by (simp add: ex_defs op_defs Let_def toValidUTF8Drug_def utf8_simps)

subsection \<open>Stored bytes that do not decode\<close>

text \<open>
  Claim C7 fails on \<^verbatim>\<open>RecallDrug\<close>, which drops the error of
  \<^verbatim>\<open>json.Unmarshal\<close>: when the bytes stored at the identifier do not decode,
  a recall by the regulator returns no error and writes the encoding of a record
  built from whatever the decoder left in the zero-valued target, with the recall
  fields set. \<^verbatim>\<open>ShipDrug\<close> on the same bytes returns the decode error and writes
  nothing.
\<close>

theorem RecallDrug_drops_decode_error:
  assumes "clientMSPID c = Some ''CDSCOMSP''" and "\<not> getStateFails c" and "\<not> putStateFails c"
    and "worldState c drugID = Some (Undecodable d)"
  shows "RecallDrug c drugID reason =
           (None, c\<lparr>event := Some (''DrugRecalled'', drugID),
              worldState := (worldState c)(drugID \<mapsto> Marshalled (toValidUTF8Drug
                (d\<lparr>IsRecalled := True, Status := ''Recalled'',
                   InspectionNotes := InspectionNotes d @ [clock c 0 @ '': '' @ reason],
                   History := History d @
                     [clock c 1 @ ''|Recalled|CDSCO|-|Reason: '' @ reason]\<rparr>)))\<rparr>)
       \<and> ShipDrug c drugID to = (Some DecodeError, c)"
  using assms by (simp add: op_defs Let_def)

text \<open>
  On bytes that are not JSON, the recall stores a record of zero values.
\<close>

theorem RecallDrug_drops_decode_error_witness:
  "clientMSPID (exCtx (Some ''CDSCOMSP'') exCorrupt) = Some ''CDSCOMSP''
   \<and> \<not> getStateFails (exCtx (Some ''CDSCOMSP'') exCorrupt)
   \<and> \<not> putStateFails (exCtx (Some ''CDSCOMSP'') exCorrupt)
   \<and> worldState (exCtx (Some ''CDSCOMSP'') exCorrupt) ''DRUG-1'' = Some (Undecodable zeroDrug)
   \<and> RecallDrug (exCtx (Some ''CDSCOMSP'') exCorrupt) ''DRUG-1'' ''contamination'' =
       (None, (exCtx (Some ''CDSCOMSP'') exCorrupt)\<lparr>event := Some (''DrugRecalled'', ''DRUG-1''),
          worldState := [''DRUG-1'' \<mapsto> Marshalled
            \<lparr>DrugID = [], Name = [], Manufacturer = [], BatchNumber = [], MfgDate = [],
             ExpiryDate = [], Composition = [], CurrentOwner = [], Status = ''Recalled'',
             History = [''2024-01-01 10:00:01|Recalled|CDSCO|-|Reason: contamination''],
             IsRecalled = True,
             InspectionNotes = [''2024-01-01 10:00:00: contamination'']\<rparr>]\<rparr>)
   \<and> ShipDrug (exCtx (Some ''CDSCOMSP'') exCorrupt) ''DRUG-1'' ''Medlife'' =
       (Some DecodeError, exCtx (Some ''CDSCOMSP'') exCorrupt)"
  using RecallDrug_drops_decode_error [of "exCtx (Some ''CDSCOMSP'') exCorrupt" "''DRUG-1''"
      zeroDrug "''contamination''" "''Medlife''"]
  by (simp add: ex_defs exCorrupt_def zeroDrug_def toValidUTF8Drug_def utf8_simps)

subsection \<open>Events\<close>

text \<open>
  Claim C8, as the code has it. A successful \<^verbatim>\<open>ShipDrug\<close> leaves the event
  \<open>DrugShipped\<close> set, with the identifier as payload, and a successful
  \<^verbatim>\<open>RecallDrug\<close> the event \<open>DrugRecalled\<close>. A call that fails with any error
  but that of the final write leaves the context, hence the event, as it was.
\<close>

theorem events_of_operations:
  "(fst (ShipDrug c drugID to) = None \<longrightarrow>
      event (snd (ShipDrug c drugID to)) = Some (''DrugShipped'', drugID))
   \<and> (fst (RecallDrug c drugID reason) = None \<longrightarrow>
      event (snd (RecallDrug c drugID reason)) = Some (''DrugRecalled'', drugID))
   \<and> (fst (ShipDrug c drugID to) \<noteq> None \<and> fst (ShipDrug c drugID to) \<noteq> Some StoreUnavailable \<longrightarrow>
      snd (ShipDrug c drugID to) = c)
   \<and> (fst (RecallDrug c drugID reason) \<noteq> None
        \<and> fst (RecallDrug c drugID reason) \<noteq> Some StoreUnavailable \<longrightarrow>
      snd (RecallDrug c drugID reason) = c)"
  by (auto simp: op_defs Let_def split: option.splits if_splits bytes.splits)

text \<open>
  A shipment and a recall of \<open>DRUG-1\<close>, and both refused for the wrong caller.
\<close>

theorem events_of_operations_witness:
  "fst (ShipDrug (exCtx (Some ''CiplaMSP'') exStore) ''DRUG-1'' ''Medlife'') = None
   \<and> event (snd (ShipDrug (exCtx (Some ''CiplaMSP'') exStore) ''DRUG-1'' ''Medlife'')) =
       Some (''DrugShipped'', ''DRUG-1'')
   \<and> fst (RecallDrug (exCtx (Some ''CDSCOMSP'') exStore) ''DRUG-1'' ''contamination'') = None
   \<and> event (snd (RecallDrug (exCtx (Some ''CDSCOMSP'') exStore) ''DRUG-1'' ''contamination'')) =
       Some (''DrugRecalled'', ''DRUG-1'')
   \<and> fst (ShipDrug (exCtx (Some ''CDSCOMSP'') exStore) ''DRUG-1'' ''Medlife'') = Some Unauthorized
   \<and> snd (ShipDrug (exCtx (Some ''CDSCOMSP'') exStore) ''DRUG-1'' ''Medlife'') =
       exCtx (Some ''CDSCOMSP'') exStore
   \<and> fst (RecallDrug (exCtx (Some ''CiplaMSP'') exStore) ''DRUG-1'' ''contamination'') =
       Some Unauthorized
   \<and> snd (RecallDrug (exCtx (Some ''CiplaMSP'') exStore) ''DRUG-1'' ''contamination'') =
       exCtx (Some ''CiplaMSP'') exStore"
proof -
  have a: "fst (ShipDrug (exCtx (Some ''CiplaMSP'') exStore) ''DRUG-1'' ''Medlife'') = None"
    and b: "fst (RecallDrug (exCtx (Some ''CDSCOMSP'') exStore) ''DRUG-1'' ''contamination'') = None"
    and c: "fst (ShipDrug (exCtx (Some ''CDSCOMSP'') exStore) ''DRUG-1'' ''Medlife'') =
       Some Unauthorized"
    and d: "fst (RecallDrug (exCtx (Some ''CiplaMSP'') exStore) ''DRUG-1'' ''contamination'') =
       Some Unauthorized"
    by (simp_all add: ex_defs op_defs Let_def toValidUTF8Drug_def utf8_simps)
  from a b
    events_of_operations [of "exCtx (Some ''CiplaMSP'') exStore" "''DRUG-1''" "''Medlife''"
      "''contamination''"]
    events_of_operations [of "exCtx (Some ''CDSCOMSP'') exStore" "''DRUG-1''" "''Medlife''"
      "''contamination''"]
  have "event (snd (ShipDrug (exCtx (Some ''CiplaMSP'') exStore) ''DRUG-1'' ''Medlife'')) =
       Some (''DrugShipped'', ''DRUG-1'')"
    and "event (snd (RecallDrug (exCtx (Some ''CDSCOMSP'') exStore) ''DRUG-1'' ''contamination'')) =
       Some (''DrugRecalled'', ''DRUG-1'')"
    by blast+
  moreover from c d
    events_of_operations [of "exCtx (Some ''CiplaMSP'') exStore" "''DRUG-1''" "''Medlife''"
      "''contamination''"]
    events_of_operations [of "exCtx (Some ''CDSCOMSP'') exStore" "''DRUG-1''" "''Medlife''"
      "''contamination''"]
  have "snd (ShipDrug (exCtx (Some ''CDSCOMSP'') exStore) ''DRUG-1'' ''Medlife'') =
       exCtx (Some ''CDSCOMSP'') exStore"
    and "snd (RecallDrug (exCtx (Some ''CiplaMSP'') exStore) ''DRUG-1'' ''contamination'') =
       exCtx (Some ''CiplaMSP'') exStore"
    by simp_all
  ultimately show ?thesis using a b c d by simp
qed

text \<open>
  Claim C8 as stated fails: the events are not named \<open>CustodyTransferred\<close> and
  \<open>BatchRecalled\<close>, and since \<^verbatim>\<open>SetEvent\<close> is called before
  \<^verbatim>\<open>PutState\<close>, a shipment whose write fails returns the error with the
  event set.
\<close>

theorem event_names_counterexample:
  "fst (ShipDrug (exCtx (Some ''CiplaMSP'') exStore) ''DRUG-1'' ''Medlife'') = None
   \<and> event (snd (ShipDrug (exCtx (Some ''CiplaMSP'') exStore) ''DRUG-1'' ''Medlife'')) \<noteq>
       Some (''CustodyTransferred'', ''DRUG-1'')
   \<and> fst (RecallDrug (exCtx (Some ''CDSCOMSP'') exStore) ''DRUG-1'' ''contamination'') = None
   \<and> event (snd (RecallDrug (exCtx (Some ''CDSCOMSP'') exStore) ''DRUG-1'' ''contamination'')) \<noteq>
       Some (''BatchRecalled'', ''DRUG-1'')
   \<and> event ((exCtx (Some ''CiplaMSP'') exStore)\<lparr>putStateFails := True\<rparr>) = None
   \<and> ShipDrug ((exCtx (Some ''CiplaMSP'') exStore)\<lparr>putStateFails := True\<rparr>) ''DRUG-1'' ''Medlife'' =
       (Some StoreUnavailable,
        (exCtx (Some ''CiplaMSP'') exStore)\<lparr>putStateFails := True,
           event := Some (''DrugShipped'', ''DRUG-1'')\<rparr>)"
  by (simp add: ex_defs op_defs Let_def toValidUTF8Drug_def utf8_simps)

end
